theory Spec2Isabelle
  imports Main "HOL-Library.Multiset"
begin

section \<open>Data model\<close>

text \<open>
  Python strings are modelled as \<open>string\<close>; a character outside ASCII stands as its
  UTF-8 bytes. Exceptions are values of \<open>error\<close>, and a function that may raise returns
  \<open>error + 'a\<close> with \<open>Inl\<close> for the exception.
\<close>

datatype error =
  KeyError
| HTTPError nat
| ConnectionError
| JSONDecodeError
| UnidentifiedImageError

text \<open>
  \<open>KeyError\<close> is the lookup of a key that a dictionary does not hold; which key it was
  is not recorded. \<open>HTTPError\<close> carries the status code of the response.
\<close>

text \<open>
  A content block of a message returned by the remote API is a dictionary. The history
  reconstruction reads \<open>c["type"]\<close> and, for a text block, \<open>c["text"]["value"]\<close>;
  \<open>text_value\<close> is \<open>None\<close> when that path is absent (the lookup raises KeyError).
  \<open>image_file_id\<close> is \<open>c["image_file"]["file_id"]\<close>, the reference carried by an image
  block; the reconstruction never reads it.
\<close>

record content_block =
  btype :: string
  text_value :: "string option"
  image_file_id :: "string option"

record message =
  created_at :: int
  role :: string
  content :: "content_block list"

text \<open>An entry of the local history: the dictionary \<open>{"role": ..., "content": ...}\<close>.\<close>

datatype turn = Turn string string

section \<open>History reconstruction\<close>

text \<open>
  The inner loop of \<open>reconstruct_history\<close> for a message whose role is \<open>user\<close>:
  it appends to the history built so far.
\<close>

fun user_blocks :: "content_block list \<Rightarrow> turn list \<Rightarrow> error + turn list" where
  "user_blocks [] history = Inr history"
| "user_blocks (c # cs) history =
     (if btype c = ''text'' then
        (case text_value c of
           None \<Rightarrow> Inl KeyError
         | Some v \<Rightarrow> user_blocks cs (history @ [Turn ''user'' v]))
      else if btype c = ''image_file'' then
        user_blocks cs (history @ [Turn ''user'' ''[Imagem enviada]''])
      else user_blocks cs history)"

text \<open>The inner loop for a message whose role is \<open>assistant\<close>.\<close>

fun assistant_blocks :: "content_block list \<Rightarrow> turn list \<Rightarrow> error + turn list" where
  "assistant_blocks [] history = Inr history"
| "assistant_blocks (c # cs) history =
     (if btype c = ''text'' then
        (case text_value c of
           None \<Rightarrow> Inl KeyError
         | Some v \<Rightarrow> assistant_blocks cs (history @ [Turn ''assistant'' v]))
      else assistant_blocks cs history)"

text \<open>The outer loop over the sorted messages.\<close>

fun history_loop :: "message list \<Rightarrow> turn list \<Rightarrow> error + turn list" where
  "history_loop [] history = Inr history"
| "history_loop (m # ms) history =
     (if role m = ''user'' then
        (case user_blocks (content m) history of
           Inl e \<Rightarrow> Inl e
         | Inr history' \<Rightarrow> history_loop ms history')
      else if role m = ''assistant'' then
        (case assistant_blocks (content m) history of
           Inl e \<Rightarrow> Inl e
         | Inr history' \<Rightarrow> history_loop ms history')
      else history_loop ms history)"

text \<open>
  Python's \<open>sorted\<close> is a stable sort; \<open>sort_key\<close> is one too, and a stable sort by a
  key has only one possible result, so both compute the same list.
\<close>

definition reconstruct_history :: "message list \<Rightarrow> error + turn list" where
  "reconstruct_history messages = history_loop (sort_key created_at messages) []"

text \<open>
  A message list is well formed when every text block that the reconstruction reads
  carries its text value.
\<close>

definition well_formed_block :: "content_block \<Rightarrow> bool" where
  "well_formed_block c = (btype c = ''text'' \<longrightarrow> text_value c \<noteq> None)"

definition well_formed :: "message list \<Rightarrow> bool" where
  "well_formed messages = (\<forall>m \<in> set messages. \<forall>c \<in> set (content m). well_formed_block c)"

section \<open>The remote API\<close>

text \<open>
  The program talks to the remote service through the \<open>requests\<close> library. A request is
  recorded by its endpoint and the arguments the program passes; the world keeps the
  sequence of network calls and sleeps performed so far, and what was printed.
\<close>

type_synonym bytes = string

text \<open>
  A content block of an outgoing message: \<open>{"type": "text", "text": s}\<close> or
  \<open>{"type": "image_file", "image_file": {"file_id": f}}\<close>.
\<close>

datatype out_block = TextBlock string | ImageFileBlock string

text \<open>The dictionary \<open>data\<close> of \<open>send_message\<close>: its role and its content list.\<close>

datatype message_data = MessageData string "out_block list"

datatype request =
  PostThreads string
| PostFiles string bytes string
| PostMessages string string message_data
| GetMessages string string
| PostRuns string string string
| GetRun string string string

datatype event = Request request | Sleep nat

record world =
  events :: "event list"
  stdout :: "string list"

text \<open>
  The decoded JSON body of a response, as far as the program reads it: the keys
  \<open>id\<close>, \<open>status\<close> and \<open>data\<close>, each \<open>None\<close> when the key is absent.
\<close>

record json_body =
  j_id :: "string option"
  j_status :: "string option"
  j_data :: "message list option"

text \<open>
  A response: its status code, its raw text, and its decoded body (\<open>None\<close> when the
  body is not JSON, so that \<open>resp.json()\<close> raises).
\<close>

record response =
  status_code :: nat
  resp_text :: string
  json :: "json_body option"

text \<open>
  The remote service answers a request, given everything that happened before it, with
  a response, or with \<open>None\<close> when the transport fails and \<open>requests\<close> raises.
\<close>

type_synonym remote = "event list \<Rightarrow> request \<Rightarrow> response option"

definition requests_send :: "remote \<Rightarrow> request \<Rightarrow> world \<Rightarrow> response option \<times> world" where
  "requests_send srv rq w = (srv (events w) rq, w\<lparr>events := events w @ [Request rq]\<rparr>)"

definition print_line :: "string \<Rightarrow> world \<Rightarrow> world" where
  "print_line s w = w\<lparr>stdout := stdout w @ [s]\<rparr>"

definition sleep :: "nat \<Rightarrow> world \<Rightarrow> world" where
  "sleep n w = w\<lparr>events := events w @ [Sleep n]\<rparr>"

text \<open>
  \<open>Response.raise_for_status\<close> of the \<open>requests\<close> library raises HTTPError for a
  status code from 400 to 599 (client and server errors) and returns otherwise.
\<close>

definition raise_for_status :: "response \<Rightarrow> error + unit" where
  "raise_for_status resp =
     (if 400 \<le> status_code resp \<and> status_code resp < 600
      then Inl (HTTPError (status_code resp)) else Inr ())"

text \<open>\<open>resp.json()[key]\<close>: the body must decode and hold the key that \<open>field\<close> reads.\<close>

definition json_get :: "(json_body \<Rightarrow> 'a option) \<Rightarrow> response \<Rightarrow> error + 'a" where
  "json_get field resp =
     (case json resp of
        None \<Rightarrow> Inl JSONDecodeError
      | Some j \<Rightarrow> (case field j of None \<Rightarrow> Inl KeyError | Some v \<Rightarrow> Inr v))"

definition create_thread :: "remote \<Rightarrow> string \<Rightarrow> world \<Rightarrow> (error + string) \<times> world" where
  "create_thread srv api_key w =
     (case requests_send srv (PostThreads api_key) w of
        (None, w1) \<Rightarrow> (Inl ConnectionError, w1)
      | (Some resp, w1) \<Rightarrow>
          (let w2 = (if status_code resp \<noteq> 200
                     then print_line (''Resposta da API: '' @ resp_text resp) w1 else w1)
           in case raise_for_status resp of
                Inl e \<Rightarrow> (Inl e, w2)
              | Inr _ \<Rightarrow> (json_get j_id resp, w2)))"

definition upload_file :: "remote \<Rightarrow> string \<Rightarrow> bytes \<Rightarrow> string \<Rightarrow> world \<Rightarrow> (error + string) \<times> world" where
  "upload_file srv api_key image_bytes image_filename w =
     (case requests_send srv (PostFiles api_key image_bytes image_filename) w of
        (None, w1) \<Rightarrow> (Inl ConnectionError, w1)
      | (Some resp, w1) \<Rightarrow>
          (let w2 = (if status_code resp \<noteq> 200
                     then print_line (''Resposta da API (upload_file): '' @ resp_text resp) w1 else w1)
           in case raise_for_status resp of
                Inl e \<Rightarrow> (Inl e, w2)
              | Inr _ \<Rightarrow> (json_get j_id resp, w2)))"

text \<open>The fixed language instruction; the letter e with circumflex is two UTF-8 bytes.\<close>

definition instrucao_idioma :: string where
  "instrucao_idioma = ''Responda em portugu'' @ [CHR 0xC3, CHR 0xAA] @ ''s do Brasil.''"

text \<open>
  The test \<open>image_bytes and image_filename\<close>: both arguments are given and neither is
  empty (an absent argument is \<open>None\<close>; \<open>None\<close>, empty bytes and the empty string are
  falsy).
\<close>

fun image_supplied :: "bytes option \<Rightarrow> string option \<Rightarrow> (bytes \<times> string) option" where
  "image_supplied (Some image_bytes) (Some image_filename) =
     (if image_bytes \<noteq> [] \<and> image_filename \<noteq> [] then Some (image_bytes, image_filename) else None)"
| "image_supplied _ _ = None"

definition send_message ::
  "remote \<Rightarrow> string \<Rightarrow> string \<Rightarrow> string \<Rightarrow> bytes option \<Rightarrow> string option \<Rightarrow> world
     \<Rightarrow> (error + json_body) \<times> world" where
  "send_message srv thread_id content' api_key image_bytes image_filename w =
     (let content_completo = content' @ [CHR 0x0A] @ instrucao_idioma;
          built =
            (case image_supplied image_bytes image_filename of
               None \<Rightarrow> (Inr (MessageData ''user'' [TextBlock content_completo]), w)
             | Some (b, f) \<Rightarrow>
                 (case upload_file srv api_key b f w of
                    (Inl e, w1) \<Rightarrow> (Inl e, w1)
                  | (Inr file_id, w1) \<Rightarrow>
                      (Inr (MessageData ''user''
                              ([TextBlock content_completo] @ [ImageFileBlock file_id])), w1)))
      in case built of
           (Inl e, w1) \<Rightarrow> (Inl e, w1)
         | (Inr data, w1) \<Rightarrow>
             (case requests_send srv (PostMessages thread_id api_key data) w1 of
                (None, w2) \<Rightarrow> (Inl ConnectionError, w2)
              | (Some resp, w2) \<Rightarrow>
                  (case raise_for_status resp of
                     Inl e \<Rightarrow> (Inl e, w2)
                   | Inr _ \<Rightarrow>
                       (case json resp of
                          None \<Rightarrow> (Inl JSONDecodeError, w2)
                        | Some j \<Rightarrow> (Inr j, w2)))))"

definition list_messages :: "remote \<Rightarrow> string \<Rightarrow> string \<Rightarrow> world \<Rightarrow> (error + message list) \<times> world" where
  "list_messages srv thread_id api_key w =
     (case requests_send srv (GetMessages thread_id api_key) w of
        (None, w1) \<Rightarrow> (Inl ConnectionError, w1)
      | (Some resp, w1) \<Rightarrow>
          (case raise_for_status resp of
             Inl e \<Rightarrow> (Inl e, w1)
           | Inr _ \<Rightarrow> (json_get j_data resp, w1)))"

definition create_run :: "remote \<Rightarrow> string \<Rightarrow> string \<Rightarrow> string \<Rightarrow> world \<Rightarrow> (error + string) \<times> world" where
  "create_run srv thread_id api_key assistant_id w =
     (case requests_send srv (PostRuns thread_id api_key assistant_id) w of
        (None, w1) \<Rightarrow> (Inl ConnectionError, w1)
      | (Some resp, w1) \<Rightarrow>
          (case raise_for_status resp of
             Inl e \<Rightarrow> (Inl e, w1)
           | Inr _ \<Rightarrow> (json_get j_id resp, w1)))"

text \<open>
  One poll of \<open>wait_for_run_completion\<close>: the request, \<open>raise_for_status\<close>, and the
  read of \<open>run["status"]\<close>.
\<close>

definition poll_run :: "remote \<Rightarrow> string \<Rightarrow> string \<Rightarrow> string \<Rightarrow> world \<Rightarrow> (error + string) \<times> world" where
  "poll_run srv thread_id run_id api_key w =
     (case requests_send srv (GetRun thread_id run_id api_key) w of
        (None, w1) \<Rightarrow> (Inl ConnectionError, w1)
      | (Some resp, w1) \<Rightarrow>
          (case raise_for_status resp of
             Inl e \<Rightarrow> (Inl e, w1)
           | Inr _ \<Rightarrow> (json_get j_status resp, w1)))"

definition terminal_statuses :: "string list" where
  "terminal_statuses = [''completed'', ''failed'', ''cancelled'', ''expired'']"

text \<open>
  The loop \<open>while True\<close> has no bound: when the remote never reports a terminal status
  and never fails, the function does not return, which is the value \<open>None\<close>.
\<close>

partial_function (option) wait_for_run_completion ::
  "remote \<Rightarrow> string \<Rightarrow> string \<Rightarrow> string \<Rightarrow> world \<Rightarrow> ((error + string) \<times> world) option" where
  "wait_for_run_completion srv thread_id run_id api_key w =
     (case poll_run srv thread_id run_id api_key w of
        (Inl e, w1) \<Rightarrow> Some (Inl e, w1)
      | (Inr status, w1) \<Rightarrow>
          (if status \<in> set terminal_statuses then Some (Inr status, w1)
           else wait_for_run_completion srv thread_id run_id api_key (sleep 1 w1)))"

section \<open>The submission cycle of main\<close>







text \<open>
  The loop of \<open>wait_for_run_completion\<close> observed for at most \<open>n\<close> polls: the result if the
  function has returned by then (\<open>None\<close> while it is still polling), and the world reached.
\<close>

fun wait_for_run_completion_upto ::
  "nat \<Rightarrow> remote \<Rightarrow> string \<Rightarrow> string \<Rightarrow> string \<Rightarrow> world \<Rightarrow> (error + string) option \<times> world" where
  "wait_for_run_completion_upto 0 srv thread_id run_id api_key w = (None, w)"
| "wait_for_run_completion_upto (Suc n) srv thread_id run_id api_key w =
     (case poll_run srv thread_id run_id api_key w of
        (Inl e, w1) \<Rightarrow> (Some (Inl e), w1)
      | (Inr status, w1) \<Rightarrow>
          (if status \<in> set terminal_statuses then (Some (Inr status), w1)
           else wait_for_run_completion_upto n srv thread_id run_id api_key (sleep 1 w1)))"




text \<open>The number of create-thread network calls in a sequence of events.\<close>

fun is_create_thread :: "event \<Rightarrow> bool" where
  "is_create_thread (Request (PostThreads _)) = True"
| "is_create_thread _ = False"

definition create_thread_calls :: "event list \<Rightarrow> nat" where
  "create_thread_calls evs = length (filter is_create_thread evs)"

text \<open>
  The outcome of poll number \<open>i\<close> (counted from 0) of a wait that starts in world \<open>w\<close>:
  the poll made after \<open>i\<close> earlier polls, each followed by a sleep of 1.
\<close>

definition polled_status :: "remote \<Rightarrow> string \<Rightarrow> string \<Rightarrow> string \<Rightarrow> world \<Rightarrow> nat \<Rightarrow> error + string" where
  "polled_status srv thread_id run_id api_key w i =
     fst (poll_run srv thread_id run_id api_key
       (w\<lparr>events := events w @ concat (replicate i [Request (GetRun thread_id run_id api_key), Sleep 1])\<rparr>))"

text \<open>Whether a result is the exception HTTPError.\<close>

fun is_http_error :: "error + 'a \<Rightarrow> bool" where
  "is_http_error (Inl (HTTPError _)) = True"
| "is_http_error _ = False"

section \<open>Example inputs\<close>

text \<open>Concrete messages on which the theorems below are instantiated.\<close>

definition m_hi :: message where
  "m_hi = \<lparr>created_at = 5, role = ''user'', content =
     [\<lparr>btype = ''text'', text_value = Some ''hi'', image_file_id = None\<rparr>,
      \<lparr>btype = ''image_file'', text_value = None, image_file_id = Some ''f1''\<rparr>]\<rparr>"

definition m_ok :: message where
  "m_ok = \<lparr>created_at = 7, role = ''assistant'', content =
     [\<lparr>btype = ''image_file'', text_value = None, image_file_id = Some ''f2''\<rparr>,
      \<lparr>btype = ''text'', text_value = Some ''ok'', image_file_id = None\<rparr>]\<rparr>"

definition m_tie :: message where
  "m_tie = \<lparr>created_at = 5, role = ''assistant'', content =
     [\<lparr>btype = ''text'', text_value = Some ''tie'', image_file_id = None\<rparr>]\<rparr>"

definition m_url :: message where
  "m_url = \<lparr>created_at = 1, role = ''user'', content =
     [\<lparr>btype = ''image_url'', text_value = None, image_file_id = None\<rparr>]\<rparr>"

text \<open>
  The world before any call, and scripted remotes: \<open>srv_ok\<close> answers every request
  with status 200 and reports the run as queued for two polls and completed afterwards;
  \<open>srv_upload_fails\<close> answers the upload with status 500; \<open>srv_final s\<close> reports the
  status \<open>s\<close> at the first poll.
\<close>

definition w0 :: world where
  "w0 = \<lparr>events = [], stdout = []\<rparr>"

definition id_body :: "string \<Rightarrow> json_body" where
  "id_body i = \<lparr>j_id = Some i, j_status = None, j_data = None\<rparr>"

definition respond :: "nat \<Rightarrow> json_body \<Rightarrow> response" where
  "respond code body = \<lparr>status_code = code, resp_text = ''body'', json = Some body\<rparr>"

fun is_poll :: "event \<Rightarrow> bool" where
  "is_poll (Request (GetRun _ _ _)) = True"
| "is_poll _ = False"

fun srv_ok :: remote where
  "srv_ok evs (PostThreads _) = Some (respond 200 (id_body ''thread_1''))"
| "srv_ok evs (PostFiles _ _ _) = Some (respond 200 (id_body ''file_1''))"
| "srv_ok evs (PostMessages _ _ _) = Some (respond 200 (id_body ''msg_1''))"
| "srv_ok evs (GetMessages _ _) =
     Some (respond 200 \<lparr>j_id = None, j_status = None, j_data = Some [m_ok, m_hi]\<rparr>)"
| "srv_ok evs (PostRuns _ _ _) = Some (respond 200 (id_body ''run_1''))"
| "srv_ok evs (GetRun _ _ _) =
     Some (respond 200 \<lparr>j_id = Some ''run_1'',
        j_status = Some (if length (filter is_poll evs) < 2 then ''queued'' else ''completed''),
        j_data = None\<rparr>)"

fun srv_final :: "string \<Rightarrow> remote" where
  "srv_final status evs (GetRun _ _ _) =
     Some (respond 200 \<lparr>j_id = Some ''run_1'', j_status = Some status, j_data = None\<rparr>)"
| "srv_final status evs rq = srv_ok evs rq"

fun srv_upload_fails :: remote where
  "srv_upload_fails evs (PostFiles _ _ _) = Some (respond 500 (id_body ''file_1''))"
| "srv_upload_fails evs rq = srv_ok evs rq"

text \<open>
  Responses whose text is the JSON of their body: the body of an error, and a thread
  object under status 302. \<open>srv_message_404\<close> answers the creation of a message with
  status 404; \<open>srv_poll_503\<close> reports the run as queued at the first poll and answers
  every later poll with status 503.
\<close>

definition id_json :: "string \<Rightarrow> string" where
  "id_json i = ''{'' @ [CHR 0x22] @ ''id'' @ [CHR 0x22] @ '': '' @ [CHR 0x22] @ i @ [CHR 0x22] @ ''}''"

definition error_response :: "nat \<Rightarrow> response" where
  "error_response code =
     \<lparr>status_code = code,
      resp_text = ''{'' @ [CHR 0x22] @ ''error'' @ [CHR 0x22] @ '': {}}'',
      json = Some \<lparr>j_id = None, j_status = None, j_data = None\<rparr>\<rparr>"

fun srv_message_404 :: remote where
  "srv_message_404 evs (PostMessages _ _ _) = Some (error_response 404)"
| "srv_message_404 evs rq = srv_ok evs rq"

fun srv_poll_503 :: remote where
  "srv_poll_503 evs (GetRun _ _ _) =
     (if filter is_poll evs = []
      then Some (respond 200 \<lparr>j_id = Some ''run_1'', j_status = Some ''queued'', j_data = None\<rparr>)
      else Some (error_response 503))"
| "srv_poll_503 evs rq = srv_ok evs rq"

fun srv_redirect :: remote where
  "srv_redirect evs (PostThreads _) =
     Some \<lparr>status_code = 302, resp_text = id_json ''thread_1'', json = Some (id_body ''thread_1'')\<rparr>"
| "srv_redirect evs rq = srv_ok evs rq"











section \<open>Properties of the reconstruction loops\<close>

lemma user_blocks_shift:
  "user_blocks cs h = (case user_blocks cs [] of Inl e \<Rightarrow> Inl e | Inr t \<Rightarrow> Inr (h @ t))"
proof (induction cs arbitrary: h)
  case Nil
  show ?case by simp
next
  case (Cons c cs)
  have push: "user_blocks cs (h @ [x]) =
      (case user_blocks cs [x] of Inl e \<Rightarrow> Inl e | Inr t \<Rightarrow> Inr (h @ t))" for x
    by (subst Cons.IH [of "h @ [x]"], subst Cons.IH [of "[x]"]) (simp split: sum.splits)
  show ?case
    using Cons.IH [of h] by (simp add: push split: option.splits sum.splits)
qed

lemma assistant_blocks_shift:
  "assistant_blocks cs h = (case assistant_blocks cs [] of Inl e \<Rightarrow> Inl e | Inr t \<Rightarrow> Inr (h @ t))"
proof (induction cs arbitrary: h)
  case Nil
  show ?case by simp
next
  case (Cons c cs)
  have push: "assistant_blocks cs (h @ [x]) =
      (case assistant_blocks cs [x] of Inl e \<Rightarrow> Inl e | Inr t \<Rightarrow> Inr (h @ t))" for x
    by (subst Cons.IH [of "h @ [x]"], subst Cons.IH [of "[x]"]) (simp split: sum.splits)
  show ?case
    using Cons.IH [of h] by (simp add: push split: option.splits sum.splits)
qed

lemma user_blocks_filter:
  "\<forall>c \<in> set cs. btype c = ''text'' \<longrightarrow> text_value c \<noteq> None \<Longrightarrow>
   user_blocks cs h = Inr (h @ map (\<lambda>c. Turn ''user''
       (if btype c = ''text'' then the (text_value c) else ''[Imagem enviada]''))
       (filter (\<lambda>c. btype c = ''text'' \<or> btype c = ''image_file'') cs))"
  by (induction cs arbitrary: h) auto

lemma assistant_blocks_text:
  "\<forall>c \<in> set cs. btype c = ''text'' \<longrightarrow> text_value c \<noteq> None \<Longrightarrow>
   assistant_blocks cs h = Inr (h @ map (\<lambda>c. Turn ''assistant'' (the (text_value c)))
       (filter (\<lambda>c. btype c = ''text'') cs))"
  by (induction cs arbitrary: h) auto

lemma reconstruct_history_single: "reconstruct_history [m] = history_loop [m] []"
  by (simp add: reconstruct_history_def)

lemma user_blocks_total:
  "\<forall>c \<in> set cs. well_formed_block c \<Longrightarrow> \<exists>h'. user_blocks cs h = Inr h'"
  by (induction cs arbitrary: h) (auto simp: well_formed_block_def)

lemma assistant_blocks_total:
  "\<forall>c \<in> set cs. well_formed_block c \<Longrightarrow> \<exists>h'. assistant_blocks cs h = Inr h'"
  by (induction cs arbitrary: h) (auto simp: well_formed_block_def)

lemma history_loop_total:
  "well_formed ms \<Longrightarrow> \<exists>h'. history_loop ms h = Inr h'"
proof (induction ms arbitrary: h)
  case Nil
  show ?case by simp
next
  case (Cons m ms)
  from Cons.prems have wm: "\<forall>c \<in> set (content m). well_formed_block c" and wms: "well_formed ms"
    by (simp_all add: well_formed_def)
  obtain hu where hu: "user_blocks (content m) h = Inr hu"
    using user_blocks_total [OF wm] by blast
  obtain ha where ha: "assistant_blocks (content m) h = Inr ha"
    using assistant_blocks_total [OF wm] by blast
  show ?case
    using Cons.IH [OF wms] by (simp add: hu ha)
qed

lemma well_formed_sort: "well_formed (sort_key created_at ms) = well_formed ms"
  by (simp add: well_formed_def)

lemma history_loop_step:
  "history_loop (m # ms) h =
     (case history_loop [m] h of Inl e \<Rightarrow> Inl e | Inr h' \<Rightarrow> history_loop ms h')"
  by (simp split: sum.splits)

lemma history_loop_single_shift:
  "history_loop [m] h = (case history_loop [m] [] of Inl e \<Rightarrow> Inl e | Inr t \<Rightarrow> Inr (h @ t))"
  using user_blocks_shift [of "content m" h] assistant_blocks_shift [of "content m" h]
  by (simp split: sum.splits)

lemma history_loop_concat:
  "history_loop ms h0 = Inr h \<Longrightarrow>
   \<exists>hs. list_all2 (\<lambda>m t. history_loop [m] [] = Inr t) ms hs \<and> h = h0 @ concat hs"
proof (induction ms arbitrary: h0)
  case Nil
  then show ?case by simp
next
  case (Cons m ms)
  from Cons.prems obtain h1 where h1: "history_loop [m] h0 = Inr h1" and rest: "history_loop ms h1 = Inr h"
    by (subst (asm) history_loop_step) (auto split: sum.splits)
  from h1 obtain t where t: "history_loop [m] [] = Inr t" and h1eq: "h1 = h0 @ t"
    by (subst (asm) history_loop_single_shift) (auto split: sum.splits)
  from Cons.IH [OF rest] obtain hs where
    hs: "list_all2 (\<lambda>m t. history_loop [m] [] = Inr t) ms hs" and heq: "h = h1 @ concat hs"
    by blast
  have "list_all2 (\<lambda>m t. history_loop [m] [] = Inr t) (m # ms) (t # hs)"
    using t hs by simp
  moreover have "h = h0 @ concat (t # hs)"
    using heq h1eq by simp
  ultimately show ?case by blast
qed

section \<open>History reconstruction: the claims\<close>

text \<open>
  Claim C1. When \<open>reconstruct_history\<close> returns a history, that history is the
  concatenation of the turns of the single messages, taken in an order \<open>ms\<close> of the input
  messages in which a message with a smaller \<open>created_at\<close> always stands before one with a
  larger \<open>created_at\<close>, and in which the messages of equal \<open>created_at\<close> stand in their input
  order. So every turn of a message with a smaller \<open>created_at\<close> precedes every turn of one
  with a larger \<open>created_at\<close>, and the sort is stable. The turns emitted from a message
  \<open>m\<close> are what \<open>reconstruct_history [m]\<close> returns.
\<close>

theorem reconstruct_history_ordering:
  assumes "reconstruct_history messages = Inr history"
  shows "\<exists>ms hs.
           mset ms = mset messages \<and>
           (\<forall>i j. i < length ms \<and> j < length ms \<and> created_at (ms ! i) < created_at (ms ! j) \<longrightarrow> i < j) \<and>
           (\<forall>k. filter (\<lambda>m. created_at m = k) ms = filter (\<lambda>m. created_at m = k) messages) \<and>
           list_all2 (\<lambda>m t. reconstruct_history [m] = Inr t) ms hs \<and>
           history = concat hs"
proof -
  let ?ms = "sort_key created_at messages"
  from assms have "history_loop ?ms [] = Inr history"
    by (simp add: reconstruct_history_def)
  from history_loop_concat [OF this] obtain hs where
    hs: "list_all2 (\<lambda>m t. history_loop [m] [] = Inr t) ?ms hs" and h: "history = concat hs"
    by auto
  have perm: "mset ?ms = mset messages" by simp
  have srt: "sorted (map created_at ?ms)" by simp
  have ord: "i < j" if "i < length ?ms" "j < length ?ms" "created_at (?ms ! i) < created_at (?ms ! j)" for i j
  proof (rule ccontr)
    assume "\<not> i < j"
    then have "j \<le> i" by simp
    with srt that(1) have "map created_at ?ms ! j \<le> map created_at ?ms ! i"
      by (simp add: sorted_iff_nth_mono del: sorted_sort_key length_sort)
    with that show False by simp
  qed
  have stab: "filter (\<lambda>m. created_at m = k) ?ms = filter (\<lambda>m. created_at m = k) messages" for k
    by (rule sort_key_stable)
  have "list_all2 (\<lambda>m t. reconstruct_history [m] = Inr t) ?ms hs"
    using hs by (simp add: reconstruct_history_single)
  with perm ord stab h show ?thesis by blast
qed

lemma example_history:
  "reconstruct_history [m_ok, m_hi, m_tie] =
     Inr [Turn ''user'' ''hi'', Turn ''user'' ''[Imagem enviada]'',
          Turn ''assistant'' ''tie'', Turn ''assistant'' ''ok'']"
  by (simp add: reconstruct_history_def m_ok_def m_hi_def m_tie_def)

theorem reconstruct_history_ordering_witness:
  "reconstruct_history [m_ok, m_hi, m_tie] =
     Inr [Turn ''user'' ''hi'', Turn ''user'' ''[Imagem enviada]'',
          Turn ''assistant'' ''tie'', Turn ''assistant'' ''ok''] \<and>
   (\<exists>ms hs.
      mset ms = mset [m_ok, m_hi, m_tie] \<and>
      (\<forall>i j. i < length ms \<and> j < length ms \<and> created_at (ms ! i) < created_at (ms ! j) \<longrightarrow> i < j) \<and>
      (\<forall>k. filter (\<lambda>m. created_at m = k) ms = filter (\<lambda>m. created_at m = k) [m_ok, m_hi, m_tie]) \<and>
      list_all2 (\<lambda>m t. reconstruct_history [m] = Inr t) ms hs \<and>
      [Turn ''user'' ''hi'', Turn ''user'' ''[Imagem enviada]'',
       Turn ''assistant'' ''tie'', Turn ''assistant'' ''ok''] = concat hs)"
  using reconstruct_history_ordering [OF example_history] example_history by blast

lemma reconstruct_history_user_filter:
  assumes "role m = ''user''"
    and "\<forall>c \<in> set (content m). btype c = ''text'' \<longrightarrow> text_value c \<noteq> None"
  shows "reconstruct_history [m] =
     Inr (map (\<lambda>c. Turn ''user''
            (if btype c = ''text'' then the (text_value c) else ''[Imagem enviada]''))
          (filter (\<lambda>c. btype c = ''text'' \<or> btype c = ''image_file'') (content m)))"
  using assms(1) user_blocks_filter [OF assms(2), of "[]"]
  by (simp add: reconstruct_history_def)

text \<open>
  Claim C2. For a message of role \<open>user\<close> whose content blocks are text blocks (each with
  its text value) and image-file blocks, the reconstruction emits one turn per content
  block, in block order: a user turn with the text value for a text block and a user turn
  with the fixed placeholder for an image-file block. The blocks \<open>[Text hi, ImageRef f1]\<close>
  give exactly the two turns of the spec.
\<close>

theorem reconstruct_history_user:
  assumes "role m = ''user''"
    and "\<forall>c \<in> set (content m).
           (btype c = ''text'' \<and> text_value c \<noteq> None) \<or> btype c = ''image_file''"
  shows "reconstruct_history [m] =
     Inr (map (\<lambda>c. Turn ''user''
            (if btype c = ''text'' then the (text_value c) else ''[Imagem enviada]''))
          (content m))"
proof -
  from assms(2) have wf: "\<forall>c \<in> set (content m). btype c = ''text'' \<longrightarrow> text_value c \<noteq> None"
    by auto
  have "\<forall>c \<in> set (content m). btype c = ''text'' \<or> btype c = ''image_file''"
    using assms(2) by auto
  then have "filter (\<lambda>c. btype c = ''text'' \<or> btype c = ''image_file'') (content m) = content m"
    by (rule filter_True)
  with reconstruct_history_user_filter [OF assms(1) wf] show ?thesis by simp
qed

theorem reconstruct_history_user_witness:
  "role m_hi = ''user'' \<and>
   map btype (content m_hi) = [''text'', ''image_file''] \<and>
   map text_value (content m_hi) = [Some ''hi'', None] \<and>
   reconstruct_history [m_hi] = Inr [Turn ''user'' ''hi'', Turn ''user'' ''[Imagem enviada]'']"
  using reconstruct_history_user [of m_hi] by (simp add: m_hi_def)

text \<open>
  Claim C3. For a message of role \<open>assistant\<close> whose text blocks carry their value, the
  reconstruction emits exactly one assistant turn per text block, in block order, and
  skips every other block. The blocks \<open>[ImageRef f2, Text ok]\<close> give exactly the one turn
  of the spec.
\<close>

theorem reconstruct_history_assistant:
  assumes "role m = ''assistant''"
    and "\<forall>c \<in> set (content m). btype c = ''text'' \<longrightarrow> text_value c \<noteq> None"
  shows "reconstruct_history [m] =
     Inr (map (\<lambda>c. Turn ''assistant'' (the (text_value c)))
            (filter (\<lambda>c. btype c = ''text'') (content m)))"
  using assms(1) assistant_blocks_text [OF assms(2), of "[]"]
  by (simp add: reconstruct_history_def)

theorem reconstruct_history_assistant_witness:
  "role m_ok = ''assistant'' \<and>
   map text_value (content m_ok) = [None, Some ''ok''] \<and>
   reconstruct_history [m_ok] = Inr [Turn ''assistant'' ''ok'']"
  using reconstruct_history_assistant [of m_ok] by (simp add: m_ok_def)

text \<open>
  Claim C4. \<open>reconstruct_history\<close> reads its argument only and touches no state, so it is
  a function of the message list; on a well-formed list it does not fail, and it has
  exactly one output.
\<close>

theorem reconstruct_history_total:
  assumes "well_formed messages"
  shows "\<exists>!history. reconstruct_history messages = Inr history"
proof -
  from assms have "well_formed (sort_key created_at messages)"
    by (simp add: well_formed_sort)
  from history_loop_total [OF this, of "[]"] show ?thesis
    by (auto simp: reconstruct_history_def)
qed

theorem reconstruct_history_total_witness:
  "well_formed [m_ok, m_hi, m_url] \<and>
   (\<exists>!history. reconstruct_history [m_ok, m_hi, m_url] = Inr history)"
proof -
  have wf: "well_formed [m_ok, m_hi, m_url]"
    by (simp add: well_formed_def well_formed_block_def m_ok_def m_hi_def m_url_def)
  show ?thesis using wf reconstruct_history_total [OF wf] by simp
qed

section \<open>Properties of the remote operations\<close>

lemma upload_file_events:
  "events (snd (upload_file srv k b f w)) = events w @ [Request (PostFiles k b f)]"
  by (simp add: upload_file_def requests_send_def print_line_def Let_def
      split: option.splits sum.splits)

lemma upload_fails_example:
  "upload_file srv_upload_fails ''key'' ''PNG'' ''a.png'' w0 =
     (Inl (HTTPError 500),
      \<lparr>events = [Request (PostFiles ''key'' ''PNG'' ''a.png'')],
       stdout = [''Resposta da API (upload_file): body'']\<rparr>)"
  by (simp add: upload_file_def requests_send_def print_line_def raise_for_status_def
      respond_def w0_def)

lemma upload_ok_example:
  "upload_file srv_ok ''key'' ''PNG'' ''a.png'' w0 =
     (Inr ''file_1'', \<lparr>events = [Request (PostFiles ''key'' ''PNG'' ''a.png'')], stdout = []\<rparr>)"
  by (simp add: upload_file_def requests_send_def print_line_def raise_for_status_def
      json_get_def respond_def id_body_def w0_def)

lemma poll_run_snd:
  "snd (poll_run srv t r k w) = w\<lparr>events := events w @ [Request (GetRun t r k)]\<rparr>"
  by (simp add: poll_run_def requests_send_def split: option.splits sum.splits)

lemma poll_run_calls:
  "create_thread_calls (events (snd (poll_run srv t r k w))) = create_thread_calls (events w)"
  by (simp add: poll_run_snd create_thread_calls_def)

lemma wait_result:
  assumes "wait_for_run_completion srv t r k w = Some y"
  shows "(\<forall>s. fst y = Inr s \<longrightarrow> s \<in> set terminal_statuses) \<and>
         create_thread_calls (events (snd y)) = create_thread_calls (events w)"
proof (rule wait_for_run_completion.raw_induct
    [where P = "\<lambda>srv t r k w y. (\<forall>s. fst y = Inr s \<longrightarrow> s \<in> set terminal_statuses) \<and>
         create_thread_calls (events (snd y)) = create_thread_calls (events w)", OF _ assms])
  fix wait :: "remote \<Rightarrow> string \<Rightarrow> string \<Rightarrow> string \<Rightarrow> world \<Rightarrow> ((error + string) \<times> world) option"
  fix srv t r k w y
  assume ih: "\<And>srv t r k w y. wait srv t r k w = Some y \<Longrightarrow>
         (\<forall>s. fst y = Inr s \<longrightarrow> s \<in> set terminal_statuses) \<and>
         create_thread_calls (events (snd y)) = create_thread_calls (events w)"
  assume body: "(case poll_run srv t r k w of
        (Inl e, w1) \<Rightarrow> Some (Inl e, w1)
      | (Inr status, w1) \<Rightarrow>
          (if status \<in> set terminal_statuses then Some (Inr status, w1)
           else wait srv t r k (sleep 1 w1))) = Some y"
  obtain res w1 where p: "poll_run srv t r k w = (res, w1)"
    by (cases "poll_run srv t r k w")
  have c1: "create_thread_calls (events w1) = create_thread_calls (events w)"
    using poll_run_calls [of srv t r k w] p by simp
  show "(\<forall>s. fst y = Inr s \<longrightarrow> s \<in> set terminal_statuses) \<and>
         create_thread_calls (events (snd y)) = create_thread_calls (events w)"
  proof (cases res)
    case (Inl e)
    with body p c1 show ?thesis by auto
  next
    case (Inr s)
    show ?thesis
    proof (cases "s \<in> set terminal_statuses")
      case True
      with body p c1 Inr show ?thesis by auto
    next
      case False
      with body p Inr have "wait srv t r k (sleep 1 w1) = Some y" by simp
      from ih [OF this] c1 show ?thesis
        by (simp add: sleep_def create_thread_calls_def)
    qed
  qed
qed

lemma wait_first_terminal:
  assumes "\<forall>i<n. \<exists>s'. fst (poll_run srv t r k
              (w\<lparr>events := events w @ concat (replicate i [Request (GetRun t r k), Sleep 1])\<rparr>)) = Inr s'
              \<and> s' \<notin> set terminal_statuses"
    and "fst (poll_run srv t r k
              (w\<lparr>events := events w @ concat (replicate n [Request (GetRun t r k), Sleep 1])\<rparr>)) = Inr s"
    and "s \<in> set terminal_statuses"
  shows "wait_for_run_completion srv t r k w =
     Some (Inr s, w\<lparr>events := events w @ concat (replicate n [Request (GetRun t r k), Sleep 1])
                                   @ [Request (GetRun t r k)]\<rparr>)"
  using assms
proof (induction n arbitrary: w)
  case 0
  then have f: "fst (poll_run srv t r k w) = Inr s" by simp
  have "poll_run srv t r k w = (Inr s, w\<lparr>events := events w @ [Request (GetRun t r k)]\<rparr>)"
    using f poll_run_snd [of srv t r k w] by (cases "poll_run srv t r k w") simp
  with 0(3) show ?case
    by (subst wait_for_run_completion.simps) simp
next
  case (Suc n)
  let ?w1 = "w\<lparr>events := events w @ [Request (GetRun t r k)]\<rparr>"
  let ?w2 = "w\<lparr>events := events w @ [Request (GetRun t r k), Sleep 1]\<rparr>"
  from Suc.prems(1) have "\<exists>s'. fst (poll_run srv t r k
              (w\<lparr>events := events w @ concat (replicate 0 [Request (GetRun t r k), Sleep 1])\<rparr>)) = Inr s'
              \<and> s' \<notin> set terminal_statuses"
    by blast
  then obtain s0 where s0: "fst (poll_run srv t r k w) = Inr s0" "s0 \<notin> set terminal_statuses"
    by auto
  have p: "poll_run srv t r k w = (Inr s0, ?w1)"
    using s0(1) poll_run_snd [of srv t r k w] by (cases "poll_run srv t r k w") simp
  have sl: "sleep 1 ?w1 = ?w2" by (simp add: sleep_def)
  have step: "wait_for_run_completion srv t r k w = wait_for_run_completion srv t r k ?w2"
    using p s0(2) sl by (subst wait_for_run_completion.simps) simp
  have h1: "\<forall>i<n. \<exists>s'. fst (poll_run srv t r k
              (?w2\<lparr>events := events ?w2 @ concat (replicate i [Request (GetRun t r k), Sleep 1])\<rparr>)) = Inr s'
              \<and> s' \<notin> set terminal_statuses"
  proof (intro allI impI)
    fix i assume "i < n"
    then have "Suc i < Suc n" by simp
    with Suc.prems(1) have "\<exists>s'. fst (poll_run srv t r k
              (w\<lparr>events := events w @ concat (replicate (Suc i) [Request (GetRun t r k), Sleep 1])\<rparr>)) = Inr s'
              \<and> s' \<notin> set terminal_statuses"
      by blast
    then show "\<exists>s'. fst (poll_run srv t r k
              (?w2\<lparr>events := events ?w2 @ concat (replicate i [Request (GetRun t r k), Sleep 1])\<rparr>)) = Inr s'
              \<and> s' \<notin> set terminal_statuses"
      by simp
  qed
  have h2: "fst (poll_run srv t r k
              (?w2\<lparr>events := events ?w2 @ concat (replicate n [Request (GetRun t r k), Sleep 1])\<rparr>)) = Inr s"
    using Suc.prems(2) by simp
  from Suc.IH [OF h1 h2 Suc.prems(3)] step show ?case by simp
qed

lemma wait_returns_poll_ends:
  assumes "wait_for_run_completion srv t r k w = Some y"
  shows "\<exists>n. \<not> (\<exists>s'. polled_status srv t r k w n = Inr s' \<and> s' \<notin> set terminal_statuses)"
proof (rule wait_for_run_completion.raw_induct
    [where P = "\<lambda>srv t r k w y.
       \<exists>n. \<not> (\<exists>s'. polled_status srv t r k w n = Inr s' \<and> s' \<notin> set terminal_statuses)", OF _ assms])
  fix wait :: "remote \<Rightarrow> string \<Rightarrow> string \<Rightarrow> string \<Rightarrow> world \<Rightarrow> ((error + string) \<times> world) option"
  fix srv t r k w y
  assume ih: "\<And>srv t r k w y. wait srv t r k w = Some y \<Longrightarrow>
       \<exists>n. \<not> (\<exists>s'. polled_status srv t r k w n = Inr s' \<and> s' \<notin> set terminal_statuses)"
  assume body: "(case poll_run srv t r k w of
        (Inl e, w1) \<Rightarrow> Some (Inl e, w1)
      | (Inr status, w1) \<Rightarrow>
          (if status \<in> set terminal_statuses then Some (Inr status, w1)
           else wait srv t r k (sleep 1 w1))) = Some y"
  have p0: "polled_status srv t r k w 0 = fst (poll_run srv t r k w)"
    by (simp add: polled_status_def)
  show "\<exists>n. \<not> (\<exists>s'. polled_status srv t r k w n = Inr s' \<and> s' \<notin> set terminal_statuses)"
  proof (cases "\<exists>s'. fst (poll_run srv t r k w) = Inr s' \<and> s' \<notin> set terminal_statuses")
    case False
    with p0 have "\<not> (\<exists>s'. polled_status srv t r k w 0 = Inr s' \<and> s' \<notin> set terminal_statuses)"
      by simp
    then show ?thesis by blast
  next
    case True
    then obtain s0 where s0: "fst (poll_run srv t r k w) = Inr s0" "s0 \<notin> set terminal_statuses"
      by blast
    let ?w2 = "w\<lparr>events := events w @ [Request (GetRun t r k), Sleep 1]\<rparr>"
    have p: "poll_run srv t r k w = (Inr s0, w\<lparr>events := events w @ [Request (GetRun t r k)]\<rparr>)"
      using s0(1) poll_run_snd [of srv t r k w] by (cases "poll_run srv t r k w") simp
    have "wait srv t r k ?w2 = Some y"
      using body p s0(2) by (simp add: sleep_def)
    from ih [OF this] obtain n where
      n: "\<not> (\<exists>s'. polled_status srv t r k ?w2 n = Inr s' \<and> s' \<notin> set terminal_statuses)"
      by blast
    have "polled_status srv t r k ?w2 n = polled_status srv t r k w (Suc n)"
      by (simp add: polled_status_def)
    with n have "\<not> (\<exists>s'. polled_status srv t r k w (Suc n) = Inr s' \<and> s' \<notin> set terminal_statuses)"
      by simp
    then show ?thesis by blast
  qed
qed

lemma srv_ok_polls:
  "polled_status srv_ok ''thread_1'' ''run_1'' ''key'' w0 0 = Inr ''queued''"
  "polled_status srv_ok ''thread_1'' ''run_1'' ''key'' w0 (Suc 0) = Inr ''queued''"
  "polled_status srv_ok ''thread_1'' ''run_1'' ''key'' w0 2 = Inr ''completed''"
  by (simp_all add: polled_status_def poll_run_def requests_send_def raise_for_status_def
      json_get_def respond_def w0_def numeral_2_eq_2)

lemma is_http_error_json_get: "\<not> is_http_error (json_get field resp)"
  by (simp add: json_get_def split: option.splits)

lemma create_thread_http:
  assumes "srv (events w) (PostThreads api_key) = Some resp"
  shows "is_http_error (fst (create_thread srv api_key w)) =
           (400 \<le> status_code resp \<and> status_code resp < 600)"
    and "events (snd (create_thread srv api_key w)) = events w @ [Request (PostThreads api_key)]"
    and "\<not> (400 \<le> status_code resp \<and> status_code resp < 600) \<Longrightarrow>
           fst (create_thread srv api_key w) = json_get j_id resp"
  using assms is_http_error_json_get [of j_id resp]
  by (auto simp: create_thread_def requests_send_def raise_for_status_def print_line_def Let_def)

lemma upload_file_http:
  assumes "srv (events w) (PostFiles api_key b f) = Some resp"
  shows "is_http_error (fst (upload_file srv api_key b f w)) =
           (400 \<le> status_code resp \<and> status_code resp < 600)"
    and "events (snd (upload_file srv api_key b f w)) = events w @ [Request (PostFiles api_key b f)]"
    and "\<not> (400 \<le> status_code resp \<and> status_code resp < 600) \<Longrightarrow>
           fst (upload_file srv api_key b f w) = json_get j_id resp"
  using assms is_http_error_json_get [of j_id resp]
  by (auto simp: upload_file_def requests_send_def raise_for_status_def print_line_def Let_def)

lemma list_messages_http:
  assumes "srv (events w) (GetMessages t api_key) = Some resp"
  shows "is_http_error (fst (list_messages srv t api_key w)) =
           (400 \<le> status_code resp \<and> status_code resp < 600)"
    and "events (snd (list_messages srv t api_key w)) = events w @ [Request (GetMessages t api_key)]"
    and "\<not> (400 \<le> status_code resp \<and> status_code resp < 600) \<Longrightarrow>
           fst (list_messages srv t api_key w) = json_get j_data resp"
  using assms is_http_error_json_get [of j_data resp]
  by (auto simp: list_messages_def requests_send_def raise_for_status_def)

lemma create_run_http:
  assumes "srv (events w) (PostRuns t api_key a) = Some resp"
  shows "is_http_error (fst (create_run srv t api_key a w)) =
           (400 \<le> status_code resp \<and> status_code resp < 600)"
    and "events (snd (create_run srv t api_key a w)) = events w @ [Request (PostRuns t api_key a)]"
    and "\<not> (400 \<le> status_code resp \<and> status_code resp < 600) \<Longrightarrow>
           fst (create_run srv t api_key a w) = json_get j_id resp"
  using assms is_http_error_json_get [of j_id resp]
  by (auto simp: create_run_def requests_send_def raise_for_status_def)

lemma poll_run_http:
  assumes "srv (events w) (GetRun t r api_key) = Some resp"
  shows "is_http_error (fst (poll_run srv t r api_key w)) =
           (400 \<le> status_code resp \<and> status_code resp < 600)"
    and "events (snd (poll_run srv t r api_key w)) = events w @ [Request (GetRun t r api_key)]"
    and "\<not> (400 \<le> status_code resp \<and> status_code resp < 600) \<Longrightarrow>
           fst (poll_run srv t r api_key w) = json_get j_status resp"
    and "400 \<le> status_code resp \<and> status_code resp < 600 \<Longrightarrow>
           poll_run srv t r api_key w =
             (Inl (HTTPError (status_code resp)), w\<lparr>events := events w @ [Request (GetRun t r api_key)]\<rparr>)"
  using assms is_http_error_json_get [of j_status resp]
  by (auto simp: poll_run_def requests_send_def raise_for_status_def)

lemma send_message_http:
  assumes "image_supplied image_bytes image_filename = None"
    and "srv (events w) (PostMessages t api_key
           (MessageData ''user'' [TextBlock (c @ [CHR 0x0A] @ instrucao_idioma)])) = Some resp"
  shows "is_http_error (fst (send_message srv t c api_key image_bytes image_filename w)) =
           (400 \<le> status_code resp \<and> status_code resp < 600)"
    and "events (snd (send_message srv t c api_key image_bytes image_filename w)) =
           events w @ [Request (PostMessages t api_key
             (MessageData ''user'' [TextBlock (c @ [CHR 0x0A] @ instrucao_idioma)]))]"
    and "\<not> (400 \<le> status_code resp \<and> status_code resp < 600) \<Longrightarrow> json resp = Some j \<Longrightarrow>
           fst (send_message srv t c api_key image_bytes image_filename w) = Inr j"
  using assms
  by (simp_all add: send_message_def requests_send_def raise_for_status_def Let_def
      split: option.splits)

lemma create_thread_rule:
  "(\<forall>resp. srv (events w) (PostThreads api_key) = Some resp \<longrightarrow>
      is_http_error (fst (create_thread srv api_key w)) =
        (400 \<le> status_code resp \<and> status_code resp < 600) \<and>
      events (snd (create_thread srv api_key w)) = events w @ [Request (PostThreads api_key)] \<and>
      (\<forall>j v. \<not> (400 \<le> status_code resp \<and> status_code resp < 600) \<and>
             json resp = Some j \<and> j_id j = Some v \<longrightarrow>
         fst (create_thread srv api_key w) = Inr v))"
proof (intro allI impI conjI)
  fix resp
  assume r: "srv (events w) (PostThreads api_key) = Some resp"
  show "is_http_error (fst (create_thread srv api_key w)) =
        (400 \<le> status_code resp \<and> status_code resp < 600)"
    by (rule create_thread_http(1) [where srv = srv and w = w and resp = resp, OF r])
  show "events (snd (create_thread srv api_key w)) = events w @ [Request (PostThreads api_key)]"
    by (rule create_thread_http(2) [where srv = srv and w = w and resp = resp, OF r])
  fix j v
  assume a: "\<not> (400 \<le> status_code resp \<and> status_code resp < 600) \<and>
             json resp = Some j \<and> j_id j = Some v"
  then have "fst (create_thread srv api_key w) = json_get j_id resp"
    using create_thread_http(3) [where srv = srv and w = w and resp = resp, OF r] by blast
  with a show "fst (create_thread srv api_key w) = Inr v"
    by (simp add: json_get_def)
qed

lemma upload_file_rule:
  "(\<forall>resp. srv (events w) (PostFiles api_key b f) = Some resp \<longrightarrow>
      is_http_error (fst (upload_file srv api_key b f w)) =
        (400 \<le> status_code resp \<and> status_code resp < 600) \<and>
      events (snd (upload_file srv api_key b f w)) = events w @ [Request (PostFiles api_key b f)] \<and>
      (\<forall>j v. \<not> (400 \<le> status_code resp \<and> status_code resp < 600) \<and>
             json resp = Some j \<and> j_id j = Some v \<longrightarrow>
         fst (upload_file srv api_key b f w) = Inr v))"
proof (intro allI impI conjI)
  fix resp
  assume r: "srv (events w) (PostFiles api_key b f) = Some resp"
  show "is_http_error (fst (upload_file srv api_key b f w)) =
        (400 \<le> status_code resp \<and> status_code resp < 600)"
    by (rule upload_file_http(1) [where srv = srv and w = w and resp = resp, OF r])
  show "events (snd (upload_file srv api_key b f w)) = events w @ [Request (PostFiles api_key b f)]"
    by (rule upload_file_http(2) [where srv = srv and w = w and resp = resp, OF r])
  fix j v
  assume a: "\<not> (400 \<le> status_code resp \<and> status_code resp < 600) \<and>
             json resp = Some j \<and> j_id j = Some v"
  then have "fst (upload_file srv api_key b f w) = json_get j_id resp"
    using upload_file_http(3) [where srv = srv and w = w and resp = resp, OF r] by blast
  with a show "fst (upload_file srv api_key b f w) = Inr v"
    by (simp add: json_get_def)
qed

lemma list_messages_rule:
  "(\<forall>resp. srv (events w) (GetMessages thread_id api_key) = Some resp \<longrightarrow>
      is_http_error (fst (list_messages srv thread_id api_key w)) =
        (400 \<le> status_code resp \<and> status_code resp < 600) \<and>
      events (snd (list_messages srv thread_id api_key w)) = events w @ [Request (GetMessages thread_id api_key)] \<and>
      (\<forall>j v. \<not> (400 \<le> status_code resp \<and> status_code resp < 600) \<and>
             json resp = Some j \<and> j_data j = Some v \<longrightarrow>
         fst (list_messages srv thread_id api_key w) = Inr v))"
proof (intro allI impI conjI)
  fix resp
  assume r: "srv (events w) (GetMessages thread_id api_key) = Some resp"
  show "is_http_error (fst (list_messages srv thread_id api_key w)) =
        (400 \<le> status_code resp \<and> status_code resp < 600)"
    by (rule list_messages_http(1) [where srv = srv and w = w and resp = resp, OF r])
  show "events (snd (list_messages srv thread_id api_key w)) = events w @ [Request (GetMessages thread_id api_key)]"
    by (rule list_messages_http(2) [where srv = srv and w = w and resp = resp, OF r])
  fix j v
  assume a: "\<not> (400 \<le> status_code resp \<and> status_code resp < 600) \<and>
             json resp = Some j \<and> j_data j = Some v"
  then have "fst (list_messages srv thread_id api_key w) = json_get j_data resp"
    using list_messages_http(3) [where srv = srv and w = w and resp = resp, OF r] by blast
  with a show "fst (list_messages srv thread_id api_key w) = Inr v"
    by (simp add: json_get_def)
qed

lemma create_run_rule:
  "(\<forall>resp. srv (events w) (PostRuns thread_id api_key assistant_id) = Some resp \<longrightarrow>
      is_http_error (fst (create_run srv thread_id api_key assistant_id w)) =
        (400 \<le> status_code resp \<and> status_code resp < 600) \<and>
      events (snd (create_run srv thread_id api_key assistant_id w)) = events w @ [Request (PostRuns thread_id api_key assistant_id)] \<and>
      (\<forall>j v. \<not> (400 \<le> status_code resp \<and> status_code resp < 600) \<and>
             json resp = Some j \<and> j_id j = Some v \<longrightarrow>
         fst (create_run srv thread_id api_key assistant_id w) = Inr v))"
proof (intro allI impI conjI)
  fix resp
  assume r: "srv (events w) (PostRuns thread_id api_key assistant_id) = Some resp"
  show "is_http_error (fst (create_run srv thread_id api_key assistant_id w)) =
        (400 \<le> status_code resp \<and> status_code resp < 600)"
    by (rule create_run_http(1) [where srv = srv and w = w and resp = resp, OF r])
  show "events (snd (create_run srv thread_id api_key assistant_id w)) = events w @ [Request (PostRuns thread_id api_key assistant_id)]"
    by (rule create_run_http(2) [where srv = srv and w = w and resp = resp, OF r])
  fix j v
  assume a: "\<not> (400 \<le> status_code resp \<and> status_code resp < 600) \<and>
             json resp = Some j \<and> j_id j = Some v"
  then have "fst (create_run srv thread_id api_key assistant_id w) = json_get j_id resp"
    using create_run_http(3) [where srv = srv and w = w and resp = resp, OF r] by blast
  with a show "fst (create_run srv thread_id api_key assistant_id w) = Inr v"
    by (simp add: json_get_def)
qed

lemma poll_run_rule:
  "(\<forall>resp. srv (events w) (GetRun thread_id run_id api_key) = Some resp \<longrightarrow>
      is_http_error (fst (poll_run srv thread_id run_id api_key w)) =
        (400 \<le> status_code resp \<and> status_code resp < 600) \<and>
      events (snd (poll_run srv thread_id run_id api_key w)) = events w @ [Request (GetRun thread_id run_id api_key)] \<and>
      (\<forall>j v. \<not> (400 \<le> status_code resp \<and> status_code resp < 600) \<and>
             json resp = Some j \<and> j_status j = Some v \<longrightarrow>
         fst (poll_run srv thread_id run_id api_key w) = Inr v))"
proof (intro allI impI conjI)
  fix resp
  assume r: "srv (events w) (GetRun thread_id run_id api_key) = Some resp"
  show "is_http_error (fst (poll_run srv thread_id run_id api_key w)) =
        (400 \<le> status_code resp \<and> status_code resp < 600)"
    by (rule poll_run_http(1) [where srv = srv and w = w and resp = resp, OF r])
  show "events (snd (poll_run srv thread_id run_id api_key w)) = events w @ [Request (GetRun thread_id run_id api_key)]"
    by (rule poll_run_http(2) [where srv = srv and w = w and resp = resp, OF r])
  fix j v
  assume a: "\<not> (400 \<le> status_code resp \<and> status_code resp < 600) \<and>
             json resp = Some j \<and> j_status j = Some v"
  then have "fst (poll_run srv thread_id run_id api_key w) = json_get j_status resp"
    using poll_run_http(3) [where srv = srv and w = w and resp = resp, OF r] by blast
  with a show "fst (poll_run srv thread_id run_id api_key w) = Inr v"
    by (simp add: json_get_def)
qed

lemma wait_first_error:
  assumes "\<forall>i<n. \<exists>s'. fst (poll_run srv t r k
              (w\<lparr>events := events w @ concat (replicate i [Request (GetRun t r k), Sleep 1])\<rparr>)) = Inr s'
              \<and> s' \<notin> set terminal_statuses"
    and "fst (poll_run srv t r k
              (w\<lparr>events := events w @ concat (replicate n [Request (GetRun t r k), Sleep 1])\<rparr>)) = Inl e"
  shows "wait_for_run_completion srv t r k w =
     Some (Inl e, w\<lparr>events := events w @ concat (replicate n [Request (GetRun t r k), Sleep 1])
                                   @ [Request (GetRun t r k)]\<rparr>)"
  using assms
proof (induction n arbitrary: w)
  case 0
  then have f: "fst (poll_run srv t r k w) = Inl e" by simp
  have "poll_run srv t r k w = (Inl e, w\<lparr>events := events w @ [Request (GetRun t r k)]\<rparr>)"
    using f poll_run_snd [of srv t r k w] by (cases "poll_run srv t r k w") simp
  then show ?case
    by (subst wait_for_run_completion.simps) simp
next
  case (Suc n)
  let ?w1 = "w\<lparr>events := events w @ [Request (GetRun t r k)]\<rparr>"
  let ?w2 = "w\<lparr>events := events w @ [Request (GetRun t r k), Sleep 1]\<rparr>"
  from Suc.prems(1) have "\<exists>s'. fst (poll_run srv t r k
              (w\<lparr>events := events w @ concat (replicate 0 [Request (GetRun t r k), Sleep 1])\<rparr>)) = Inr s'
              \<and> s' \<notin> set terminal_statuses"
    by blast
  then obtain s0 where s0: "fst (poll_run srv t r k w) = Inr s0" "s0 \<notin> set terminal_statuses"
    by auto
  have p: "poll_run srv t r k w = (Inr s0, ?w1)"
    using s0(1) poll_run_snd [of srv t r k w] by (cases "poll_run srv t r k w") simp
  have sl: "sleep 1 ?w1 = ?w2" by (simp add: sleep_def)
  have step: "wait_for_run_completion srv t r k w = wait_for_run_completion srv t r k ?w2"
    using p s0(2) sl by (subst wait_for_run_completion.simps) simp
  have h1: "\<forall>i<n. \<exists>s'. fst (poll_run srv t r k
              (?w2\<lparr>events := events ?w2 @ concat (replicate i [Request (GetRun t r k), Sleep 1])\<rparr>)) = Inr s'
              \<and> s' \<notin> set terminal_statuses"
  proof (intro allI impI)
    fix i assume "i < n"
    then have "Suc i < Suc n" by simp
    with Suc.prems(1) have "\<exists>s'. fst (poll_run srv t r k
              (w\<lparr>events := events w @ concat (replicate (Suc i) [Request (GetRun t r k), Sleep 1])\<rparr>)) = Inr s'
              \<and> s' \<notin> set terminal_statuses"
      by blast
    then show "\<exists>s'. fst (poll_run srv t r k
              (?w2\<lparr>events := events ?w2 @ concat (replicate i [Request (GetRun t r k), Sleep 1])\<rparr>)) = Inr s'
              \<and> s' \<notin> set terminal_statuses"
      by simp
  qed
  have h2: "fst (poll_run srv t r k
              (?w2\<lparr>events := events ?w2 @ concat (replicate n [Request (GetRun t r k), Sleep 1])\<rparr>)) = Inl e"
    using Suc.prems(2) by simp
  from Suc.IH [OF h1 h2] step show ?case by simp
qed

lemma poll_run_http_error_range:
  "poll_run srv t r k w = (Inl (HTTPError c), w1) \<Longrightarrow> 400 \<le> c \<and> c < 600"
  by (auto simp: poll_run_def requests_send_def raise_for_status_def json_get_def
      split: option.splits if_splits)

lemma wait_http_error_range:
  assumes "wait_for_run_completion srv t r k w = Some y"
  shows "\<forall>c. fst y = Inl (HTTPError c) \<longrightarrow> 400 \<le> c \<and> c < 600"
proof (rule wait_for_run_completion.raw_induct
    [where P = "\<lambda>srv t r k w y. \<forall>c. fst y = Inl (HTTPError c) \<longrightarrow> 400 \<le> c \<and> c < 600",
     OF _ assms])
  fix wait :: "remote \<Rightarrow> string \<Rightarrow> string \<Rightarrow> string \<Rightarrow> world \<Rightarrow> ((error + string) \<times> world) option"
  fix srv t r k w y
  assume ih: "\<And>srv t r k w y. wait srv t r k w = Some y \<Longrightarrow>
       \<forall>c. fst y = Inl (HTTPError c) \<longrightarrow> 400 \<le> c \<and> c < 600"
  assume body: "(case poll_run srv t r k w of
        (Inl e, w1) \<Rightarrow> Some (Inl e, w1)
      | (Inr status, w1) \<Rightarrow>
          (if status \<in> set terminal_statuses then Some (Inr status, w1)
           else wait srv t r k (sleep 1 w1))) = Some y"
  obtain res w1 where p: "poll_run srv t r k w = (res, w1)"
    by (cases "poll_run srv t r k w")
  show "\<forall>c. fst y = Inl (HTTPError c) \<longrightarrow> 400 \<le> c \<and> c < 600"
  proof (cases res)
    case (Inl e)
    with body p have y: "y = (Inl e, w1)" by simp
    show ?thesis
    proof (intro allI impI)
      fix c assume "fst y = Inl (HTTPError c)"
      with y Inl p have "poll_run srv t r k w = (Inl (HTTPError c), w1)" by simp
      then show "400 \<le> c \<and> c < 600" by (rule poll_run_http_error_range)
    qed
  next
    case (Inr s)
    show ?thesis
    proof (cases "s \<in> set terminal_statuses")
      case True
      with body p Inr show ?thesis by auto
    next
      case False
      with body p Inr have "wait srv t r k (sleep 1 w1) = Some y" by simp
      then show ?thesis by (rule ih)
    qed
  qed
qed

lemma wait_poll_fails_at:
  assumes "\<forall>i<n. \<exists>s'. polled_status srv t r k w i = Inr s' \<and> s' \<notin> set terminal_statuses"
    and "srv (events w @ concat (replicate n [Request (GetRun t r k), Sleep 1])) (GetRun t r k) = Some resp"
    and "400 \<le> status_code resp \<and> status_code resp < 600"
  shows "wait_for_run_completion srv t r k w =
     Some (Inl (HTTPError (status_code resp)),
           w\<lparr>events := events w @ concat (replicate n [Request (GetRun t r k), Sleep 1])
                                    @ [Request (GetRun t r k)]\<rparr>)"
proof -
  let ?wn = "w\<lparr>events := events w @ concat (replicate n [Request (GetRun t r k), Sleep 1])\<rparr>"
  have r: "srv (events ?wn) (GetRun t r k) = Some resp"
    using assms(2) by simp
  have "fst (poll_run srv t r k ?wn) = Inl (HTTPError (status_code resp))"
    using poll_run_http(4) [where srv = srv and w = ?wn and resp = resp, OF r assms(3)] by simp
  with assms(1) show ?thesis
    by (intro wait_first_error) (simp_all add: polled_status_def)
qed

lemma send_message_http_image:
  assumes "image_supplied image_bytes image_filename = Some (b, f)"
    and "upload_file srv api_key b f w = (Inr file_id, w1)"
    and "srv (events w1) (PostMessages t api_key
           (MessageData ''user'' [TextBlock (c @ [CHR 0x0A] @ instrucao_idioma),
                                  ImageFileBlock file_id])) = Some resp"
  shows "is_http_error (fst (send_message srv t c api_key image_bytes image_filename w)) =
           (400 \<le> status_code resp \<and> status_code resp < 600)"
    and "events (snd (send_message srv t c api_key image_bytes image_filename w)) =
           events w1 @ [Request (PostMessages t api_key
             (MessageData ''user'' [TextBlock (c @ [CHR 0x0A] @ instrucao_idioma),
                                    ImageFileBlock file_id]))]"
    and "\<not> (400 \<le> status_code resp \<and> status_code resp < 600) \<Longrightarrow> json resp = Some j \<Longrightarrow>
           fst (send_message srv t c api_key image_bytes image_filename w) = Inr j"
  using assms
  by (simp_all add: send_message_def requests_send_def raise_for_status_def Let_def
      split: option.splits)

lemma send_message_plain_rule:
  "(\<forall>resp. image_supplied image_bytes image_filename = None \<and>
      srv (events w) (PostMessages thread_id api_key (MessageData ''user'' [TextBlock (content' @ [CHR 0x0A] @ instrucao_idioma)])) = Some resp \<longrightarrow>
      is_http_error (fst (send_message srv thread_id content' api_key image_bytes image_filename w)) =
        (400 \<le> status_code resp \<and> status_code resp < 600) \<and>
      events (snd (send_message srv thread_id content' api_key image_bytes image_filename w)) = events w @ [Request (PostMessages thread_id api_key (MessageData ''user'' [TextBlock (content' @ [CHR 0x0A] @ instrucao_idioma)]))] \<and>
      (\<forall>j. \<not> (400 \<le> status_code resp \<and> status_code resp < 600) \<and> json resp = Some j \<longrightarrow>
         fst (send_message srv thread_id content' api_key image_bytes image_filename w) = Inr j))"
proof (intro allI impI conjI)
  fix resp
  assume a: "image_supplied image_bytes image_filename = None \<and>
      srv (events w) (PostMessages thread_id api_key (MessageData ''user'' [TextBlock (content' @ [CHR 0x0A] @ instrucao_idioma)])) = Some resp"
  then have n: "image_supplied image_bytes image_filename = None"
    and r: "srv (events w) (PostMessages thread_id api_key (MessageData ''user'' [TextBlock (content' @ [CHR 0x0A] @ instrucao_idioma)])) = Some resp"
    by simp_all
  show "is_http_error (fst (send_message srv thread_id content' api_key image_bytes image_filename w)) =
        (400 \<le> status_code resp \<and> status_code resp < 600)"
    by (rule send_message_http(1) [where srv = srv and w = w and resp = resp, OF n r])
  show "events (snd (send_message srv thread_id content' api_key image_bytes image_filename w)) = events w @ [Request (PostMessages thread_id api_key (MessageData ''user'' [TextBlock (content' @ [CHR 0x0A] @ instrucao_idioma)]))]"
    by (rule send_message_http(2) [where srv = srv and w = w and resp = resp, OF n r])
  fix j
  assume b: "\<not> (400 \<le> status_code resp \<and> status_code resp < 600) \<and> json resp = Some j"
  then have b1: "\<not> (400 \<le> status_code resp \<and> status_code resp < 600)" and b2: "json resp = Some j" by simp_all
  show "fst (send_message srv thread_id content' api_key image_bytes image_filename w) = Inr j"
    by (rule send_message_http(3) [where srv = srv and w = w and resp = resp, OF n r b1 b2])
qed

lemma send_message_image_rule:
  "(\<forall>ib fn file_id w1 resp. image_supplied image_bytes image_filename = Some (ib, fn) \<and>
      upload_file srv api_key ib fn w = (Inr file_id, w1) \<and>
      srv (events w1) (PostMessages thread_id api_key (MessageData ''user'' [TextBlock (content' @ [CHR 0x0A] @ instrucao_idioma), ImageFileBlock file_id])) = Some resp \<longrightarrow>
      is_http_error (fst (send_message srv thread_id content' api_key image_bytes image_filename w)) =
        (400 \<le> status_code resp \<and> status_code resp < 600) \<and>
      events (snd (send_message srv thread_id content' api_key image_bytes image_filename w)) = events w1 @ [Request (PostMessages thread_id api_key (MessageData ''user'' [TextBlock (content' @ [CHR 0x0A] @ instrucao_idioma), ImageFileBlock file_id]))] \<and>
      (\<forall>j. \<not> (400 \<le> status_code resp \<and> status_code resp < 600) \<and> json resp = Some j \<longrightarrow>
         fst (send_message srv thread_id content' api_key image_bytes image_filename w) = Inr j))"
proof (intro allI impI conjI)
  fix ib fn file_id w1 resp
  assume a: "image_supplied image_bytes image_filename = Some (ib, fn) \<and>
      upload_file srv api_key ib fn w = (Inr file_id, w1) \<and>
      srv (events w1) (PostMessages thread_id api_key (MessageData ''user'' [TextBlock (content' @ [CHR 0x0A] @ instrucao_idioma), ImageFileBlock file_id])) = Some resp"
  then have n: "image_supplied image_bytes image_filename = Some (ib, fn)"
    and u: "upload_file srv api_key ib fn w = (Inr file_id, w1)"
    and r: "srv (events w1) (PostMessages thread_id api_key (MessageData ''user'' [TextBlock (content' @ [CHR 0x0A] @ instrucao_idioma), ImageFileBlock file_id])) = Some resp"
    by simp_all
  show "is_http_error (fst (send_message srv thread_id content' api_key image_bytes image_filename w)) =
        (400 \<le> status_code resp \<and> status_code resp < 600)"
    by (rule send_message_http_image(1) [where srv = srv and w = w and resp = resp, OF n u r])
  show "events (snd (send_message srv thread_id content' api_key image_bytes image_filename w)) = events w1 @ [Request (PostMessages thread_id api_key (MessageData ''user'' [TextBlock (content' @ [CHR 0x0A] @ instrucao_idioma), ImageFileBlock file_id]))]"
    by (rule send_message_http_image(2) [where srv = srv and w = w and resp = resp, OF n u r])
  fix j
  assume b: "\<not> (400 \<le> status_code resp \<and> status_code resp < 600) \<and> json resp = Some j"
  then have b1: "\<not> (400 \<le> status_code resp \<and> status_code resp < 600)" and b2: "json resp = Some j" by simp_all
  show "fst (send_message srv thread_id content' api_key image_bytes image_filename w) = Inr j"
    by (rule send_message_http_image(3) [where srv = srv and w = w and resp = resp, OF n u r b1 b2])
qed

lemma wait_poll_rule:
  "(\<forall>n resp.
      (\<forall>i<n. \<exists>s'. polled_status srv thread_id run_id api_key w i = Inr s' \<and>
                    s' \<notin> set terminal_statuses) \<and>
      srv (events w @ concat (replicate n [Request (GetRun thread_id run_id api_key), Sleep 1])) (GetRun thread_id run_id api_key) = Some resp \<and>
      400 \<le> status_code resp \<and> status_code resp < 600 \<longrightarrow>
      wait_for_run_completion srv thread_id run_id api_key w =
        Some (Inl (HTTPError (status_code resp)),
              w\<lparr>events := events w @ concat (replicate n [Request (GetRun thread_id run_id api_key), Sleep 1])
                                   @ [Request (GetRun thread_id run_id api_key)]\<rparr>))"
proof (intro allI impI)
  fix n resp
  assume a: "(\<forall>i<n. \<exists>s'. polled_status srv thread_id run_id api_key w i = Inr s' \<and>
                    s' \<notin> set terminal_statuses) \<and>
      srv (events w @ concat (replicate n [Request (GetRun thread_id run_id api_key), Sleep 1])) (GetRun thread_id run_id api_key) = Some resp \<and>
      400 \<le> status_code resp \<and> status_code resp < 600"
  then have a1: "\<forall>i<n. \<exists>s'. polled_status srv thread_id run_id api_key w i = Inr s' \<and>
                    s' \<notin> set terminal_statuses"
    and a2: "srv (events w @ concat (replicate n [Request (GetRun thread_id run_id api_key), Sleep 1])) (GetRun thread_id run_id api_key) = Some resp"
    and a3: "400 \<le> status_code resp \<and> status_code resp < 600"
    by simp_all
  show "wait_for_run_completion srv thread_id run_id api_key w =
        Some (Inl (HTTPError (status_code resp)),
              w\<lparr>events := events w @ concat (replicate n [Request (GetRun thread_id run_id api_key), Sleep 1])
                                   @ [Request (GetRun thread_id run_id api_key)]\<rparr>)"
    by (rule wait_poll_fails_at [where srv = srv and w = w and resp = resp, OF a1 a2 a3])
qed

lemma wait_range_rule:
  "(\<forall>c w'. wait_for_run_completion srv thread_id run_id api_key w = Some (Inl (HTTPError c), w') \<longrightarrow>
      400 \<le> c \<and> c < 600)"
proof (intro allI impI)
  fix c w'
  assume "wait_for_run_completion srv thread_id run_id api_key w = Some (Inl (HTTPError c), w')"
  from wait_http_error_range [OF this] show "400 \<le> c \<and> c < 600" by simp
qed

lemma upload_ok_message_404:
  "upload_file srv_message_404 ''key'' ''PNG'' ''a.png'' w0 =
     (Inr ''file_1'', \<lparr>events = [Request (PostFiles ''key'' ''PNG'' ''a.png'')], stdout = []\<rparr>)"
  by (simp add: upload_file_def requests_send_def print_line_def raise_for_status_def
      json_get_def respond_def id_body_def w0_def)

lemma srv_poll_503_first:
  "polled_status srv_poll_503 ''thread_1'' ''run_1'' ''key'' w0 0 = Inr ''queued''"
  by (simp add: polled_status_def poll_run_def requests_send_def raise_for_status_def
      json_get_def respond_def w0_def)

lemma srv_upload_fails_responses:
  "srv_upload_fails (events w0) (PostFiles ''key'' ''PNG'' ''a.png'') = Some (respond 500 (id_body ''file_1''))"
  "srv_upload_fails (events w0) (PostThreads ''key'') = Some (respond 200 (id_body ''thread_1''))"
  by simp_all

section \<open>Properties of the submission cycle\<close>












text \<open>
  The bounded observation agrees with the function: a result seen within some number of
  polls is the result of \<open>wait_for_run_completion\<close>, and every result of the function is
  seen within some number of polls.
\<close>

lemma wait_upto_returns:
  "wait_for_run_completion_upto n srv t r k w = (Some res, w') \<Longrightarrow>
   wait_for_run_completion srv t r k w = Some (res, w')"
proof (induction n arbitrary: w)
  case 0
  then show ?case by simp
next
  case (Suc n)
  obtain r0 w1 where p: "poll_run srv t r k w = (r0, w1)"
    by (cases "poll_run srv t r k w")
  show ?case
  proof (cases r0)
    case (Inl e)
    with Suc.prems p show ?thesis
      by (subst wait_for_run_completion.simps) auto
  next
    case (Inr s)
    show ?thesis
    proof (cases "s \<in> set terminal_statuses")
      case True
      with Suc.prems p Inr show ?thesis
        by (subst wait_for_run_completion.simps) auto
    next
      case False
      with Suc.prems p Inr
      have "wait_for_run_completion_upto n srv t r k (sleep 1 w1) = (Some res, w')" by simp
      from Suc.IH [OF this] p Inr False show ?thesis
        by (subst wait_for_run_completion.simps) auto
    qed
  qed
qed

lemma wait_returns_upto:
  assumes "wait_for_run_completion srv t r k w = Some y"
  shows "\<exists>n. wait_for_run_completion_upto n srv t r k w = (Some (fst y), snd y)"
proof (rule wait_for_run_completion.raw_induct
    [where P = "\<lambda>srv t r k w y.
       \<exists>n. wait_for_run_completion_upto n srv t r k w = (Some (fst y), snd y)", OF _ assms])
  fix wait :: "remote \<Rightarrow> string \<Rightarrow> string \<Rightarrow> string \<Rightarrow> world \<Rightarrow> ((error + string) \<times> world) option"
  fix srv t r k w y
  assume ih: "\<And>srv t r k w y. wait srv t r k w = Some y \<Longrightarrow>
       \<exists>n. wait_for_run_completion_upto n srv t r k w = (Some (fst y), snd y)"
  assume body: "(case poll_run srv t r k w of
        (Inl e, w1) \<Rightarrow> Some (Inl e, w1)
      | (Inr status, w1) \<Rightarrow>
          (if status \<in> set terminal_statuses then Some (Inr status, w1)
           else wait srv t r k (sleep 1 w1))) = Some y"
  obtain r0 w1 where p: "poll_run srv t r k w = (r0, w1)"
    by (cases "poll_run srv t r k w")
  show "\<exists>n. wait_for_run_completion_upto n srv t r k w = (Some (fst y), snd y)"
  proof (cases r0)
    case (Inl e)
    with body p have "wait_for_run_completion_upto (Suc 0) srv t r k w = (Some (fst y), snd y)"
      by auto
    then show ?thesis ..
  next
    case (Inr s)
    show ?thesis
    proof (cases "s \<in> set terminal_statuses")
      case True
      with body p Inr
      have "wait_for_run_completion_upto (Suc 0) srv t r k w = (Some (fst y), snd y)"
        by auto
      then show ?thesis ..
    next
      case False
      with body p Inr have "wait srv t r k (sleep 1 w1) = Some y" by simp
      from ih [OF this] obtain n where
        "wait_for_run_completion_upto n srv t r k (sleep 1 w1) = (Some (fst y), snd y)" ..
      with p Inr False
      have "wait_for_run_completion_upto (Suc n) srv t r k w = (Some (fst y), snd y)"
        by simp
      then show ?thesis ..
    qed
  qed
qed














section \<open>Sending a message: the claims\<close>

text \<open>
  Claim C5. When an image is supplied, \<open>send_message\<close> first uploads the file. If the
  upload fails with an error \<open>e\<close>, \<open>send_message\<close> fails with \<open>e\<close> and its only network call
  is the upload: no message is created. If the upload succeeds, the network calls are the
  upload followed by the create-message call.
\<close>

theorem send_message_upload_first:
  assumes "image_supplied image_bytes image_filename = Some (b, f)"
  shows "(\<forall>e w1. upload_file srv api_key b f w = (Inl e, w1) \<longrightarrow>
            send_message srv thread_id content' api_key image_bytes image_filename w = (Inl e, w1) \<and>
            events w1 = events w @ [Request (PostFiles api_key b f)]) \<and>
         (\<forall>file_id w1. upload_file srv api_key b f w = (Inr file_id, w1) \<longrightarrow>
            (\<exists>data. events (snd (send_message srv thread_id content' api_key image_bytes image_filename w)) =
               events w @ [Request (PostFiles api_key b f),
                           Request (PostMessages thread_id api_key data)]))"
proof (intro conjI allI impI)
  fix e w1
  assume up: "upload_file srv api_key b f w = (Inl e, w1)"
  show "send_message srv thread_id content' api_key image_bytes image_filename w = (Inl e, w1)"
    using assms up by (simp add: send_message_def)
  show "events w1 = events w @ [Request (PostFiles api_key b f)]"
    using upload_file_events [of srv api_key b f w] up by simp
next
  fix file_id w1
  assume up: "upload_file srv api_key b f w = (Inr file_id, w1)"
  have ev: "events w1 = events w @ [Request (PostFiles api_key b f)]"
    using upload_file_events [of srv api_key b f w] up by simp
  show "\<exists>data. events (snd (send_message srv thread_id content' api_key image_bytes image_filename w)) =
               events w @ [Request (PostFiles api_key b f),
                           Request (PostMessages thread_id api_key data)]"
    using assms up ev
    by (simp add: send_message_def requests_send_def Let_def split: option.splits sum.splits)
qed

theorem send_message_upload_first_witness:
  "send_message srv_upload_fails ''t'' ''hello'' ''key'' (Some ''PNG'') (Some ''a.png'') w0 =
     (Inl (HTTPError 500),
      \<lparr>events = [Request (PostFiles ''key'' ''PNG'' ''a.png'')],
       stdout = [''Resposta da API (upload_file): body'']\<rparr>) \<and>
   (\<exists>data. events (snd (send_message srv_ok ''t'' ''hello'' ''key'' (Some ''PNG'') (Some ''a.png'') w0)) =
      [Request (PostFiles ''key'' ''PNG'' ''a.png''), Request (PostMessages ''t'' ''key'' data)])"
proof -
  have sup: "image_supplied (Some ''PNG'') (Some ''a.png'') = Some (''PNG'', ''a.png'')"
    by simp
  from send_message_upload_first [OF sup, of srv_upload_fails "''key''" w0 "''t''" "''hello''"]
    upload_fails_example
  have a: "send_message srv_upload_fails ''t'' ''hello'' ''key'' (Some ''PNG'') (Some ''a.png'') w0 =
     (Inl (HTTPError 500),
      \<lparr>events = [Request (PostFiles ''key'' ''PNG'' ''a.png'')],
       stdout = [''Resposta da API (upload_file): body'']\<rparr>)"
    by blast
  from send_message_upload_first [OF sup, of srv_ok "''key''" w0 "''t''" "''hello''"]
    upload_ok_example
  have b: "\<exists>data. events (snd (send_message srv_ok ''t'' ''hello'' ''key'' (Some ''PNG'') (Some ''a.png'') w0)) =
      events w0 @ [Request (PostFiles ''key'' ''PNG'' ''a.png''), Request (PostMessages ''t'' ''key'' data)]"
    by blast
  from a b show ?thesis by (simp add: w0_def)
qed

text \<open>
  Claim C8. The create-message call of \<open>send_message\<close> carries the role \<open>user\<close> and a
  content list whose first block is one text block: the user text, a newline, the fixed
  language instruction. Without an image that is the whole list; with an image (uploaded
  under the id \<open>file_id\<close>) the list has exactly one more block, the image-file reference.
\<close>

theorem send_message_content:
  "(image_supplied image_bytes image_filename = None \<longrightarrow>
      events (snd (send_message srv thread_id content' api_key image_bytes image_filename w)) =
        events w @ [Request (PostMessages thread_id api_key
          (MessageData ''user'' [TextBlock (content' @ [CHR 0x0A] @ instrucao_idioma)]))]) \<and>
   (\<forall>b f file_id w1.
      image_supplied image_bytes image_filename = Some (b, f) \<and>
      upload_file srv api_key b f w = (Inr file_id, w1) \<longrightarrow>
      events (snd (send_message srv thread_id content' api_key image_bytes image_filename w)) =
        events w @ [Request (PostFiles api_key b f),
                    Request (PostMessages thread_id api_key
          (MessageData ''user'' [TextBlock (content' @ [CHR 0x0A] @ instrucao_idioma),
                                 ImageFileBlock file_id]))])"
proof (intro conjI allI impI)
  assume "image_supplied image_bytes image_filename = None"
  then show "events (snd (send_message srv thread_id content' api_key image_bytes image_filename w)) =
        events w @ [Request (PostMessages thread_id api_key
          (MessageData ''user'' [TextBlock (content' @ [CHR 0x0A] @ instrucao_idioma)]))]"
    by (simp add: send_message_def requests_send_def Let_def split: option.splits sum.splits)
next
  fix b f file_id w1
  assume a: "image_supplied image_bytes image_filename = Some (b, f) \<and>
      upload_file srv api_key b f w = (Inr file_id, w1)"
  have ev: "events w1 = events w @ [Request (PostFiles api_key b f)]"
    using upload_file_events [of srv api_key b f w] a by simp
  show "events (snd (send_message srv thread_id content' api_key image_bytes image_filename w)) =
        events w @ [Request (PostFiles api_key b f),
                    Request (PostMessages thread_id api_key
          (MessageData ''user'' [TextBlock (content' @ [CHR 0x0A] @ instrucao_idioma),
                                 ImageFileBlock file_id]))]"
    using a ev
    by (simp add: send_message_def requests_send_def Let_def split: option.splits sum.splits)
qed

theorem send_message_content_witness:
  "events (snd (send_message srv_ok ''t'' ''hello'' ''key'' None None w0)) =
     [Request (PostMessages ''t'' ''key''
        (MessageData ''user'' [TextBlock (''hello'' @ [CHR 0x0A] @ instrucao_idioma)]))] \<and>
   events (snd (send_message srv_ok ''t'' ''hello'' ''key'' (Some ''PNG'') (Some ''a.png'') w0)) =
     [Request (PostFiles ''key'' ''PNG'' ''a.png''),
      Request (PostMessages ''t'' ''key''
        (MessageData ''user'' [TextBlock (''hello'' @ [CHR 0x0A] @ instrucao_idioma),
                               ImageFileBlock ''file_1'']))]"
proof -
  have sup: "image_supplied (Some ''PNG'') (Some ''a.png'') = Some (''PNG'', ''a.png'')"
    by simp
  have none: "image_supplied None None = None" by simp
  from send_message_content [of None None srv_ok "''t''" "''hello''" "''key''" w0] none
  have a: "events (snd (send_message srv_ok ''t'' ''hello'' ''key'' None None w0)) =
     events w0 @ [Request (PostMessages ''t'' ''key''
        (MessageData ''user'' [TextBlock (''hello'' @ [CHR 0x0A] @ instrucao_idioma)]))]"
    by blast
  from send_message_content [of "Some ''PNG''" "Some ''a.png''" srv_ok "''t''" "''hello''" "''key''" w0]
    sup upload_ok_example
  have b: "events (snd (send_message srv_ok ''t'' ''hello'' ''key'' (Some ''PNG'') (Some ''a.png'') w0)) =
     events w0 @ [Request (PostFiles ''key'' ''PNG'' ''a.png''),
      Request (PostMessages ''t'' ''key''
        (MessageData ''user'' [TextBlock (''hello'' @ [CHR 0x0A] @ instrucao_idioma),
                               ImageFileBlock ''file_1'']))]"
    by blast
  from a b show ?thesis by (simp add: w0_def)
qed

text \<open>
  Claim C10. With empty image bytes or a missing or empty file name, \<open>send_message\<close>
  behaves as if no image had been given: it makes no upload call and its only network
  call creates the message with the text block alone.
\<close>

theorem send_message_image_dropped:
  assumes "image_bytes = None \<or> image_bytes = Some [] \<or>
           image_filename = None \<or> image_filename = Some []"
  shows "send_message srv thread_id content' api_key image_bytes image_filename w =
           send_message srv thread_id content' api_key None None w \<and>
         events (snd (send_message srv thread_id content' api_key image_bytes image_filename w)) =
           events w @ [Request (PostMessages thread_id api_key
             (MessageData ''user'' [TextBlock (content' @ [CHR 0x0A] @ instrucao_idioma)]))]"
proof -
  have none: "image_supplied image_bytes image_filename = None"
    using assms by (cases image_bytes; cases image_filename) auto
  show ?thesis
    using none
    by (simp add: send_message_def requests_send_def Let_def split: option.splits sum.splits)
qed

theorem send_message_image_dropped_witness:
  "send_message srv_ok ''t'' ''hello'' ''key'' (Some []) (Some ''a.png'') w0 =
     send_message srv_ok ''t'' ''hello'' ''key'' None None w0 \<and>
   events (snd (send_message srv_ok ''t'' ''hello'' ''key'' (Some []) (Some ''a.png'') w0)) =
     [Request (PostMessages ''t'' ''key''
        (MessageData ''user'' [TextBlock (''hello'' @ [CHR 0x0A] @ instrucao_idioma)]))] \<and>
   events (snd (send_message srv_ok ''t'' ''hello'' ''key'' (Some ''PNG'') None w0)) =
     [Request (PostMessages ''t'' ''key''
        (MessageData ''user'' [TextBlock (''hello'' @ [CHR 0x0A] @ instrucao_idioma)]))]"
proof -
  have e0: "events w0 = []" by (simp add: w0_def)
  from send_message_image_dropped [of "Some []" "Some ''a.png''" srv_ok "''t''" "''hello''" "''key''" w0]
    send_message_image_dropped [of "Some ''PNG''" None srv_ok "''t''" "''hello''" "''key''" w0]
  show ?thesis by (simp only: e0 append_Nil) blast
qed

section \<open>Waiting for the run: the claims\<close>

lemma wait_loop_outcomes:
  "(\<forall>s w'. wait_for_run_completion srv thread_id run_id api_key w = Some (Inr s, w') \<longrightarrow>
       s \<in> set terminal_statuses) \<and>
   (\<forall>n s. (\<forall>i<n. \<exists>s'. polled_status srv thread_id run_id api_key w i = Inr s' \<and>
                         s' \<notin> set terminal_statuses) \<and>
          polled_status srv thread_id run_id api_key w n = Inr s \<and> s \<in> set terminal_statuses \<longrightarrow>
       wait_for_run_completion srv thread_id run_id api_key w =
         Some (Inr s, w\<lparr>events := events w
                 @ concat (replicate n [Request (GetRun thread_id run_id api_key), Sleep 1])
                 @ [Request (GetRun thread_id run_id api_key)]\<rparr>)) \<and>
   ((\<forall>i. \<exists>s'. polled_status srv thread_id run_id api_key w i = Inr s' \<and>
               s' \<notin> set terminal_statuses) \<longrightarrow>
       wait_for_run_completion srv thread_id run_id api_key w = None)"
proof (intro conjI allI impI)
  fix s w'
  assume "wait_for_run_completion srv thread_id run_id api_key w = Some (Inr s, w')"
  from wait_result [OF this] show "s \<in> set terminal_statuses" by simp
next
  fix n s
  assume a: "(\<forall>i<n. \<exists>s'. polled_status srv thread_id run_id api_key w i = Inr s' \<and>
                         s' \<notin> set terminal_statuses) \<and>
          polled_status srv thread_id run_id api_key w n = Inr s \<and> s \<in> set terminal_statuses"
  show "wait_for_run_completion srv thread_id run_id api_key w =
         Some (Inr s, w\<lparr>events := events w
                 @ concat (replicate n [Request (GetRun thread_id run_id api_key), Sleep 1])
                 @ [Request (GetRun thread_id run_id api_key)]\<rparr>)"
    using a by (intro wait_first_terminal) (simp_all add: polled_status_def)
next
  assume a: "\<forall>i. \<exists>s'. polled_status srv thread_id run_id api_key w i = Inr s' \<and>
               s' \<notin> set terminal_statuses"
  show "wait_for_run_completion srv thread_id run_id api_key w = None"
  proof (cases "wait_for_run_completion srv thread_id run_id api_key w")
    case None
    then show ?thesis .
  next
    case (Some y)
    from wait_returns_poll_ends [OF Some] a show ?thesis by blast
  qed
qed

text \<open>
  Claim C7. \<open>wait_for_run_completion\<close> never returns a status other than \<open>completed\<close>,
  \<open>failed\<close>, \<open>cancelled\<close> or \<open>expired\<close>. When the first \<open>n\<close> polls report statuses
  outside these four and the next poll reports one of them, whichever it is, the function
  returns that status after exactly \<open>n + 1\<close> polls with a sleep of 1 between successive
  polls; this holds for every \<open>n\<close>, so the number of polls has no bound. When every poll
  reports a status outside the four, the function does not return.
\<close>

theorem wait_for_run_completion_terminal:
  "(\<forall>s w'. wait_for_run_completion srv thread_id run_id api_key w = Some (Inr s, w') \<longrightarrow>
       s \<in> set [''completed'', ''failed'', ''cancelled'', ''expired'']) \<and>
   (\<forall>n s. (\<forall>i<n. \<exists>s'. polled_status srv thread_id run_id api_key w i = Inr s' \<and>
                         s' \<notin> set [''completed'', ''failed'', ''cancelled'', ''expired'']) \<and>
          polled_status srv thread_id run_id api_key w n = Inr s \<and> s \<in> set [''completed'', ''failed'', ''cancelled'', ''expired''] \<longrightarrow>
       wait_for_run_completion srv thread_id run_id api_key w =
         Some (Inr s, w\<lparr>events := events w
                 @ concat (replicate n [Request (GetRun thread_id run_id api_key), Sleep 1])
                 @ [Request (GetRun thread_id run_id api_key)]\<rparr>)) \<and>
   ((\<forall>i. \<exists>s'. polled_status srv thread_id run_id api_key w i = Inr s' \<and>
               s' \<notin> set [''completed'', ''failed'', ''cancelled'', ''expired'']) \<longrightarrow>
       wait_for_run_completion srv thread_id run_id api_key w = None)"
  using wait_loop_outcomes [of srv thread_id run_id api_key w]
  unfolding terminal_statuses_def .

lemma srv_final_poll:
  "polled_status (srv_final s) t r k w 0 = Inr s"
  by (simp add: polled_status_def poll_run_def requests_send_def raise_for_status_def
      json_get_def respond_def)

theorem wait_for_run_completion_terminal_witness:
  "wait_for_run_completion (srv_final ''completed'') ''thread_1'' ''run_1'' ''key'' w0 =
     Some (Inr ''completed'',
           \<lparr>events = [Request (GetRun ''thread_1'' ''run_1'' ''key'')], stdout = []\<rparr>) \<and>
   wait_for_run_completion (srv_final ''failed'') ''thread_1'' ''run_1'' ''key'' w0 =
     Some (Inr ''failed'',
           \<lparr>events = [Request (GetRun ''thread_1'' ''run_1'' ''key'')], stdout = []\<rparr>) \<and>
   wait_for_run_completion (srv_final ''cancelled'') ''thread_1'' ''run_1'' ''key'' w0 =
     Some (Inr ''cancelled'',
           \<lparr>events = [Request (GetRun ''thread_1'' ''run_1'' ''key'')], stdout = []\<rparr>) \<and>
   wait_for_run_completion (srv_final ''expired'') ''thread_1'' ''run_1'' ''key'' w0 =
     Some (Inr ''expired'',
           \<lparr>events = [Request (GetRun ''thread_1'' ''run_1'' ''key'')], stdout = []\<rparr>) \<and>
   wait_for_run_completion srv_ok ''thread_1'' ''run_1'' ''key'' w0 =
     Some (Inr ''completed'',
           \<lparr>events = [Request (GetRun ''thread_1'' ''run_1'' ''key''), Sleep 1,
                      Request (GetRun ''thread_1'' ''run_1'' ''key''), Sleep 1,
                      Request (GetRun ''thread_1'' ''run_1'' ''key'')],
            stdout = []\<rparr>)"
proof -
  have one: "wait_for_run_completion (srv_final s) ''thread_1'' ''run_1'' ''key'' w0 =
       Some (Inr s, \<lparr>events = [Request (GetRun ''thread_1'' ''run_1'' ''key'')], stdout = []\<rparr>)"
    if "s \<in> set [''completed'', ''failed'', ''cancelled'', ''expired'']" for s
  proof -
    have p: "(\<forall>i<0. \<exists>s'. polled_status (srv_final s) ''thread_1'' ''run_1'' ''key'' w0 i = Inr s' \<and>
                  s' \<notin> set [''completed'', ''failed'', ''cancelled'', ''expired'']) \<and>
        polled_status (srv_final s) ''thread_1'' ''run_1'' ''key'' w0 0 = Inr s \<and>
        s \<in> set [''completed'', ''failed'', ''cancelled'', ''expired'']"
      using that srv_final_poll [of s] by simp
    from wait_for_run_completion_terminal [where srv = "srv_final s" and w = w0
        and thread_id = "''thread_1''" and run_id = "''run_1''" and api_key = "''key''",
        THEN conjunct2, THEN conjunct1, rule_format, OF p]
    show ?thesis by (simp add: w0_def)
  qed
  have nonterm: "(\<forall>i<2. \<exists>s'. polled_status srv_ok ''thread_1'' ''run_1'' ''key'' w0 i = Inr s' \<and>
                         s' \<notin> set [''completed'', ''failed'', ''cancelled'', ''expired'']) \<and>
      polled_status srv_ok ''thread_1'' ''run_1'' ''key'' w0 2 = Inr ''completed'' \<and>
      ''completed'' \<in> set [''completed'', ''failed'', ''cancelled'', ''expired'']"
    using srv_ok_polls by (auto simp: less_Suc_eq numeral_2_eq_2)
  from wait_for_run_completion_terminal [where srv = srv_ok and w = w0
      and thread_id = "''thread_1''" and run_id = "''run_1''" and api_key = "''key''",
      THEN conjunct2, THEN conjunct1, rule_format, OF nonterm]
  have three: "wait_for_run_completion srv_ok ''thread_1'' ''run_1'' ''key'' w0 =
     Some (Inr ''completed'',
           \<lparr>events = [Request (GetRun ''thread_1'' ''run_1'' ''key''), Sleep 1,
                      Request (GetRun ''thread_1'' ''run_1'' ''key''), Sleep 1,
                      Request (GetRun ''thread_1'' ''run_1'' ''key'')],
            stdout = []\<rparr>)"
    by (simp add: w0_def numeral_2_eq_2)
  have "''completed'' \<in> set [''completed'', ''failed'', ''cancelled'', ''expired'']" "''failed'' \<in> set [''completed'', ''failed'', ''cancelled'', ''expired'']"
    "''cancelled'' \<in> set [''completed'', ''failed'', ''cancelled'', ''expired'']" "''expired'' \<in> set [''completed'', ''failed'', ''cancelled'', ''expired'']"
    by simp_all
  from this [THEN one] three show ?thesis by (intro conjI)
qed

section \<open>Errors of the remote operations: the claims\<close>

text \<open>
  Claim C9, amended. Each remote operation makes one network call: create thread, upload
  file, create message (the last call of \<open>send_message\<close>, made without an image or after
  the image was uploaded), list messages, create run, and each poll of the wait loop. When
  the remote answers the call with a response, the operation fails with HTTPError exactly
  when the status code is from 400 to 599, and the failing call is its last: nothing is
  retried. With any other status code (every 2xx among them) and a body that holds the
  key the operation reads, it returns the value of that key. A poll that fails, whichever
  poll it is, ends \<open>wait_for_run_completion\<close> at once with that error, and the wait ends
  with an HTTPError only for a status code from 400 to 599.
\<close>

theorem remote_operations_http_error:
  "(\<forall>resp. srv (events w) (PostThreads api_key) = Some resp \<longrightarrow>
      is_http_error (fst (create_thread srv api_key w)) =
        (400 \<le> status_code resp \<and> status_code resp < 600) \<and>
      events (snd (create_thread srv api_key w)) = events w @ [Request (PostThreads api_key)] \<and>
      (\<forall>j v. \<not> (400 \<le> status_code resp \<and> status_code resp < 600) \<and>
             json resp = Some j \<and> j_id j = Some v \<longrightarrow>
         fst (create_thread srv api_key w) = Inr v)) \<and>
   (\<forall>resp. srv (events w) (PostFiles api_key b f) = Some resp \<longrightarrow>
      is_http_error (fst (upload_file srv api_key b f w)) =
        (400 \<le> status_code resp \<and> status_code resp < 600) \<and>
      events (snd (upload_file srv api_key b f w)) = events w @ [Request (PostFiles api_key b f)] \<and>
      (\<forall>j v. \<not> (400 \<le> status_code resp \<and> status_code resp < 600) \<and>
             json resp = Some j \<and> j_id j = Some v \<longrightarrow>
         fst (upload_file srv api_key b f w) = Inr v)) \<and>
   (\<forall>resp. image_supplied image_bytes image_filename = None \<and>
      srv (events w) (PostMessages thread_id api_key (MessageData ''user'' [TextBlock (content' @ [CHR 0x0A] @ instrucao_idioma)])) = Some resp \<longrightarrow>
      is_http_error (fst (send_message srv thread_id content' api_key image_bytes image_filename w)) =
        (400 \<le> status_code resp \<and> status_code resp < 600) \<and>
      events (snd (send_message srv thread_id content' api_key image_bytes image_filename w)) = events w @ [Request (PostMessages thread_id api_key (MessageData ''user'' [TextBlock (content' @ [CHR 0x0A] @ instrucao_idioma)]))] \<and>
      (\<forall>j. \<not> (400 \<le> status_code resp \<and> status_code resp < 600) \<and> json resp = Some j \<longrightarrow>
         fst (send_message srv thread_id content' api_key image_bytes image_filename w) = Inr j)) \<and>
   (\<forall>ib fn file_id w1 resp. image_supplied image_bytes image_filename = Some (ib, fn) \<and>
      upload_file srv api_key ib fn w = (Inr file_id, w1) \<and>
      srv (events w1) (PostMessages thread_id api_key (MessageData ''user'' [TextBlock (content' @ [CHR 0x0A] @ instrucao_idioma), ImageFileBlock file_id])) = Some resp \<longrightarrow>
      is_http_error (fst (send_message srv thread_id content' api_key image_bytes image_filename w)) =
        (400 \<le> status_code resp \<and> status_code resp < 600) \<and>
      events (snd (send_message srv thread_id content' api_key image_bytes image_filename w)) = events w1 @ [Request (PostMessages thread_id api_key (MessageData ''user'' [TextBlock (content' @ [CHR 0x0A] @ instrucao_idioma), ImageFileBlock file_id]))] \<and>
      (\<forall>j. \<not> (400 \<le> status_code resp \<and> status_code resp < 600) \<and> json resp = Some j \<longrightarrow>
         fst (send_message srv thread_id content' api_key image_bytes image_filename w) = Inr j)) \<and>
   (\<forall>resp. srv (events w) (GetMessages thread_id api_key) = Some resp \<longrightarrow>
      is_http_error (fst (list_messages srv thread_id api_key w)) =
        (400 \<le> status_code resp \<and> status_code resp < 600) \<and>
      events (snd (list_messages srv thread_id api_key w)) = events w @ [Request (GetMessages thread_id api_key)] \<and>
      (\<forall>j v. \<not> (400 \<le> status_code resp \<and> status_code resp < 600) \<and>
             json resp = Some j \<and> j_data j = Some v \<longrightarrow>
         fst (list_messages srv thread_id api_key w) = Inr v)) \<and>
   (\<forall>resp. srv (events w) (PostRuns thread_id api_key assistant_id) = Some resp \<longrightarrow>
      is_http_error (fst (create_run srv thread_id api_key assistant_id w)) =
        (400 \<le> status_code resp \<and> status_code resp < 600) \<and>
      events (snd (create_run srv thread_id api_key assistant_id w)) = events w @ [Request (PostRuns thread_id api_key assistant_id)] \<and>
      (\<forall>j v. \<not> (400 \<le> status_code resp \<and> status_code resp < 600) \<and>
             json resp = Some j \<and> j_id j = Some v \<longrightarrow>
         fst (create_run srv thread_id api_key assistant_id w) = Inr v)) \<and>
   (\<forall>resp. srv (events w) (GetRun thread_id run_id api_key) = Some resp \<longrightarrow>
      is_http_error (fst (poll_run srv thread_id run_id api_key w)) =
        (400 \<le> status_code resp \<and> status_code resp < 600) \<and>
      events (snd (poll_run srv thread_id run_id api_key w)) = events w @ [Request (GetRun thread_id run_id api_key)] \<and>
      (\<forall>j v. \<not> (400 \<le> status_code resp \<and> status_code resp < 600) \<and>
             json resp = Some j \<and> j_status j = Some v \<longrightarrow>
         fst (poll_run srv thread_id run_id api_key w) = Inr v)) \<and>
   (\<forall>n resp.
      (\<forall>i<n. \<exists>s'. polled_status srv thread_id run_id api_key w i = Inr s' \<and>
                    s' \<notin> set terminal_statuses) \<and>
      srv (events w @ concat (replicate n [Request (GetRun thread_id run_id api_key), Sleep 1])) (GetRun thread_id run_id api_key) = Some resp \<and>
      400 \<le> status_code resp \<and> status_code resp < 600 \<longrightarrow>
      wait_for_run_completion srv thread_id run_id api_key w =
        Some (Inl (HTTPError (status_code resp)),
              w\<lparr>events := events w @ concat (replicate n [Request (GetRun thread_id run_id api_key), Sleep 1])
                                   @ [Request (GetRun thread_id run_id api_key)]\<rparr>)) \<and>
   (\<forall>c w'. wait_for_run_completion srv thread_id run_id api_key w = Some (Inl (HTTPError c), w') \<longrightarrow>
      400 \<le> c \<and> c < 600)"
  by (intro conjI) (rule create_thread_rule upload_file_rule send_message_plain_rule
      send_message_image_rule list_messages_rule create_run_rule poll_run_rule
      wait_poll_rule wait_range_rule)+

theorem remote_operations_http_error_witness:
  "is_http_error (fst (upload_file srv_upload_fails ''key'' ''PNG'' ''a.png'' w0)) \<and>
   events (snd (upload_file srv_upload_fails ''key'' ''PNG'' ''a.png'' w0)) =
     [Request (PostFiles ''key'' ''PNG'' ''a.png'')] \<and>
   fst (create_thread srv_upload_fails ''key'' w0) = Inr ''thread_1'' \<and>
   is_http_error (fst (send_message srv_message_404 ''t'' ''hello'' ''key''
                         (Some ''PNG'') (Some ''a.png'') w0)) \<and>
   wait_for_run_completion srv_poll_503 ''thread_1'' ''run_1'' ''key'' w0 =
     Some (Inl (HTTPError 503),
           \<lparr>events = [Request (GetRun ''thread_1'' ''run_1'' ''key''), Sleep 1,
                      Request (GetRun ''thread_1'' ''run_1'' ''key'')],
            stdout = []\<rparr>)"
proof -
  note t = remote_operations_http_error [where srv = srv_upload_fails and w = w0
      and api_key = "''key''" and b = "''PNG''" and f = "''a.png''"]
  have e0: "events w0 = []" by (simp add: w0_def)
  note up = t [THEN conjunct2, THEN conjunct1, rule_format, OF srv_upload_fails_responses(1)]
  note th = t [THEN conjunct1, rule_format, OF srv_upload_fails_responses(2)]
  have a: "is_http_error (fst (upload_file srv_upload_fails ''key'' ''PNG'' ''a.png'' w0))"
    using up [THEN conjunct1] by (simp add: respond_def)
  have b: "events (snd (upload_file srv_upload_fails ''key'' ''PNG'' ''a.png'' w0)) =
        [Request (PostFiles ''key'' ''PNG'' ''a.png'')]"
    using up [THEN conjunct2, THEN conjunct1] by (simp add: e0)
  have ok: "\<not> (400 \<le> status_code (respond 200 (id_body ''thread_1'')) \<and>
            status_code (respond 200 (id_body ''thread_1'')) < 600) \<and>
        json (respond 200 (id_body ''thread_1'')) = Some (id_body ''thread_1'') \<and>
        j_id (id_body ''thread_1'') = Some ''thread_1''"
    by (simp add: respond_def id_body_def)
  have c: "fst (create_thread srv_upload_fails ''key'' w0) = Inr ''thread_1''"
    by (rule th [THEN conjunct2, THEN conjunct2, rule_format, OF ok])
  note tm = remote_operations_http_error [where srv = srv_message_404 and w = w0
      and api_key = "''key''" and thread_id = "''t''" and content' = "''hello''"
      and image_bytes = "Some ''PNG''" and image_filename = "Some ''a.png''"]
  have pm: "image_supplied (Some ''PNG'') (Some ''a.png'') = Some (''PNG'', ''a.png'') \<and>
      upload_file srv_message_404 ''key'' ''PNG'' ''a.png'' w0 =
        (Inr ''file_1'', \<lparr>events = [Request (PostFiles ''key'' ''PNG'' ''a.png'')], stdout = []\<rparr>) \<and>
      srv_message_404 (events \<lparr>events = [Request (PostFiles ''key'' ''PNG'' ''a.png'')], stdout = []\<rparr>)
        (PostMessages ''t'' ''key'' (MessageData ''user''
           [TextBlock (''hello'' @ [CHR 0x0A] @ instrucao_idioma), ImageFileBlock ''file_1''])) =
        Some (error_response 404)"
    using upload_ok_message_404 by simp
  note im = tm [THEN conjunct2, THEN conjunct2, THEN conjunct2, THEN conjunct1, rule_format, OF pm]
  have d: "is_http_error (fst (send_message srv_message_404 ''t'' ''hello'' ''key''
                         (Some ''PNG'') (Some ''a.png'') w0))"
    using im [THEN conjunct1] by (simp add: error_response_def)
  note tw = remote_operations_http_error [where srv = srv_poll_503 and w = w0
      and api_key = "''key''" and thread_id = "''thread_1''" and run_id = "''run_1''"]
  have pw: "(\<forall>i<Suc 0. \<exists>s'. polled_status srv_poll_503 ''thread_1'' ''run_1'' ''key'' w0 i = Inr s' \<and>
                    s' \<notin> set terminal_statuses) \<and>
      srv_poll_503 (events w0 @ concat (replicate (Suc 0)
          [Request (GetRun ''thread_1'' ''run_1'' ''key''), Sleep 1]))
        (GetRun ''thread_1'' ''run_1'' ''key'') = Some (error_response 503) \<and>
      400 \<le> status_code (error_response 503) \<and> status_code (error_response 503) < 600"
    using srv_poll_503_first by (simp add: terminal_statuses_def error_response_def e0)
  note wp = tw [THEN conjunct2, THEN conjunct2, THEN conjunct2, THEN conjunct2, THEN conjunct2,
      THEN conjunct2, THEN conjunct2, THEN conjunct1, rule_format, OF pw]
  have e: "wait_for_run_completion srv_poll_503 ''thread_1'' ''run_1'' ''key'' w0 =
     Some (Inl (HTTPError 503),
           \<lparr>events = [Request (GetRun ''thread_1'' ''run_1'' ''key''), Sleep 1,
                      Request (GetRun ''thread_1'' ''run_1'' ''key'')],
            stdout = []\<rparr>)"
    using wp by (simp add: error_response_def w0_def)
  from a b c d e show ?thesis by (intro conjI)
qed

text \<open>
  Claim C9 as stated fails: a response with status 302 is not a 2xx response, and
  \<open>create_thread\<close> prints the diagnostic and returns the id without failing.
\<close>

theorem remote_operations_http_error_counterexample:
  "srv_redirect (events w0) (PostThreads ''key'') =
     Some \<lparr>status_code = 302, resp_text = id_json ''thread_1'', json = Some (id_body ''thread_1'')\<rparr> \<and>
   create_thread srv_redirect ''key'' w0 =
     (Inr ''thread_1'',
      \<lparr>events = [Request (PostThreads ''key'')],
       stdout = [''Resposta da API: '' @ id_json ''thread_1'']\<rparr>)"
  by (simp add: create_thread_def requests_send_def raise_for_status_def print_line_def
      json_get_def id_body_def w0_def)

section \<open>Thread creation: the claims\<close>




end
